theory Spec2Isabelle
  imports Complex_Main
begin

section \<open>Data model (src/types.ts)\<close>

text \<open>
  A JavaScript \<open>number\<close> is modelled as a \<open>real\<close>, and the arithmetic of the
  definitions below is exact; the rounding of IEEE doubles is added in the section on
  double-precision arithmetic, for the two handlers whose results depend on it. The only place where the program can leave the finite numbers is a
  division (\<open>avgCost\<close>, \<open>change24h\<close>): its value is a \<open>jsnum\<close>, which is a
  finite number, a non-finite one (\<open>NaN\<close>, \<open>Infinity\<close>, \<open>-Infinity\<close>) or
  \<open>null\<close>, which is what \<open>JSON.parse(JSON.stringify(...))\<close> makes of a non-finite
  number. Record fields carry a prefix where two interfaces share a field name:
  \<open>lo_\<close> for \<open>LimitOrder\<close>, \<open>tx_\<close> for \<open>Transaction\<close>, \<open>a_\<close> for \<open>Asset\<close>.
  The \<open>icon\<close> of an asset (an emoji, used by the views only) is left out.
\<close>

datatype jsnum = Num real | NonFinite | Null

datatype Side = BUY | SELL

datatype OrderKind = MARKET | LIMIT

record HistoryPoint =
  time :: int
  price :: real
  volume :: int

record Asset =
  a_id :: string
  a_name :: string
  initial_price :: real
  current_price :: real
  history :: "HistoryPoint list"
  change24h :: jsnum

record Holding =
  quantity :: real
  avgCost :: jsnum

record Transaction =
  tx_id :: string
  tx_type :: Side
  tx_assetId :: string
  tx_assetName :: string
  tx_quantity :: real
  tx_price :: real
  tx_timestamp :: int
  tx_orderType :: OrderKind

record LimitOrder =
  lo_id :: string
  lo_assetId :: string
  lo_type :: Side
  lo_quantity :: real
  lo_targetPrice :: real
  lo_timestamp :: int

record Portfolio =
  cashBalance :: real
  holdings :: "string \<rightharpoonup> Holding"
  transactions :: "Transaction list"
  openOrders :: "LimitOrder list"

subsection \<open>JavaScript arithmetic on values that may be non-finite or null\<close>

text \<open>\<open>a * b\<close> where \<open>b\<close> is read from a field: \<open>null\<close> coerces to 0, a non-finite
  operand gives a non-finite product (\<open>NaN\<close> or an infinity).\<close>

fun js_times :: "real \<Rightarrow> jsnum \<Rightarrow> jsnum" where
  "js_times a (Num b) = Num (a * b)"
| "js_times a NonFinite = NonFinite"
| "js_times a Null = Num 0"

fun js_plus :: "jsnum \<Rightarrow> real \<Rightarrow> jsnum" where
  "js_plus (Num a) b = Num (a + b)"
| "js_plus NonFinite b = NonFinite"
| "js_plus Null b = Num b"

text \<open>\<open>a / b\<close>: a finite number divided by zero is \<open>NaN\<close> or an infinity.\<close>

fun js_divide :: "jsnum \<Rightarrow> real \<Rightarrow> jsnum" where
  "js_divide (Num a) b = (if b = 0 then NonFinite else Num (a / b))"
| "js_divide NonFinite b = NonFinite"
| "js_divide Null b = (if b = 0 then NonFinite else Num 0)"

text \<open>\<open>JSON.parse(JSON.stringify(portfolio))\<close>: a deep copy in which every non-finite
  number has become \<open>null\<close>.\<close>

fun json_num :: "jsnum \<Rightarrow> jsnum" where
  "json_num NonFinite = Null"
| "json_num x = x"

definition json_holding :: "Holding \<Rightarrow> Holding" where
  "json_holding h = h\<lparr>avgCost := json_num (avgCost h)\<rparr>"

definition json_copy :: "Portfolio \<Rightarrow> Portfolio" where
  "json_copy p = p\<lparr>holdings := (\<lambda>k. map_option json_holding (holdings p k))\<rparr>"

text \<open>\<open>holdings[id] || { quantity: 0, avgCost: 0 }\<close>\<close>

definition holding_or_default :: "(string \<rightharpoonup> Holding) \<Rightarrow> string \<Rightarrow> Holding" where
  "holding_or_default hs k =
     (case hs k of None \<Rightarrow> \<lparr>quantity = 0, avgCost = Num 0\<rparr> | Some h \<Rightarrow> h)"

section \<open>Configuration (src/constants.ts)\<close>

definition INITIAL_ASSETS :: "(string \<times> string \<times> real) list" where
  "INITIAL_ASSETS =
     [(''TOM'', ''Tomato'', 1050 / 100),
      (''CAR'', ''Carrot'', 4520 / 100),
      (''BRO'', ''Broccoli'', 780 / 100),
      (''POT'', ''Potato'', 22),
      (''PEP'', ''Pepper'', 3190 / 100)]"

definition HISTORY_POINTS :: nat where
  "HISTORY_POINTS = 50"

definition INITIAL_CASH :: real where
  "INITIAL_CASH = 10000"

definition DEFAULT_PORTFOLIO_DATA :: Portfolio where
  "DEFAULT_PORTFOLIO_DATA =
     \<lparr>cashBalance = INITIAL_CASH,
      holdings = [''TOM'' \<mapsto> \<lparr>quantity = 0, avgCost = Num 0\<rparr>,
                  ''CAR'' \<mapsto> \<lparr>quantity = 0, avgCost = Num 0\<rparr>,
                  ''BRO'' \<mapsto> \<lparr>quantity = 0, avgCost = Num 0\<rparr>,
                  ''POT'' \<mapsto> \<lparr>quantity = 0, avgCost = Num 0\<rparr>,
                  ''PEP'' \<mapsto> \<lparr>quantity = 0, avgCost = Num 0\<rparr>],
      transactions = [],
      openOrders = []\<rparr>"

section \<open>The price engine (src/App.tsx, the simulation effect)\<close>

text \<open>
  The environment of a tick is the clock value \<open>now\<close> (\<open>Date.now()\<close>) and the stream
  \<open>rnd\<close> of the values \<open>Math.random()\<close> returns, in call order. The asset at index
  \<open>i\<close> draws \<open>rnd (2 * i)\<close> for its price change and \<open>rnd (2 * i + 1)\<close> for its
  volume.
\<close>

definition initial_history :: "int \<Rightarrow> (nat \<Rightarrow> real) \<Rightarrow> real \<Rightarrow> HistoryPoint list" where
  "initial_history now rnd p =
     map (\<lambda>i. \<lparr>time = now - (int HISTORY_POINTS - int i) * 1000,
                price = p,
                volume = \<lfloor>rnd i * 1000\<rfloor>\<rparr>) [0..<HISTORY_POINTS]"

fun initial_assets_from :: "nat \<Rightarrow> int \<Rightarrow> (nat \<Rightarrow> real) \<Rightarrow> (string \<times> string \<times> real) list \<Rightarrow> Asset list" where
  "initial_assets_from k now rnd [] = []"
| "initial_assets_from k now rnd ((i, n, p) # rest) =
     \<lparr>a_id = i, a_name = n, initial_price = p, current_price = p,
      history = initial_history now (\<lambda>j. rnd (k + j)) p,
      change24h = Num 0\<rparr>
     # initial_assets_from (k + HISTORY_POINTS) now rnd rest"

definition initial_assets :: "int \<Rightarrow> (nat \<Rightarrow> real) \<Rightarrow> Asset list" where
  "initial_assets now rnd = initial_assets_from 0 now rnd INITIAL_ASSETS"

definition volatility :: real where
  "volatility = 2 / 100"

definition newPrice :: "real \<Rightarrow> Asset \<Rightarrow> real" where
  "newPrice r asset =
     (let change = (r * (volatility * 2)) - volatility
      in max (1 / 100) (current_price asset * (1 + change)))"

definition newHistoryPoint :: "int \<Rightarrow> real \<Rightarrow> real \<Rightarrow> Asset \<Rightarrow> HistoryPoint" where
  "newHistoryPoint now r1 r2 asset =
     \<lparr>time = now, price = newPrice r1 asset, volume = \<lfloor>r2 * 2000\<rfloor> + 100\<rparr>"

text \<open>\<open>newHistory\<close> ends with the new point, so \<open>newHistory[0]\<close> always exists.\<close>

definition tick_asset :: "int \<Rightarrow> real \<Rightarrow> real \<Rightarrow> Asset \<Rightarrow> Asset" where
  "tick_asset now r1 r2 asset =
     (let newHistory = drop 1 (history asset) @ [newHistoryPoint now r1 r2 asset];
          startPrice = price (hd newHistory);
          priceChange = js_times 100 (js_divide (Num (newPrice r1 asset - startPrice)) startPrice)
      in asset\<lparr>current_price := newPrice r1 asset,
               history := newHistory,
               change24h := priceChange\<rparr>)"

fun advance_from :: "nat \<Rightarrow> int \<Rightarrow> (nat \<Rightarrow> real) \<Rightarrow> Asset list \<Rightarrow> Asset list" where
  "advance_from k now rnd [] = []"
| "advance_from k now rnd (a # as) =
     tick_asset now (rnd k) (rnd (k + 1)) a # advance_from (k + 2) now rnd as"

definition advance :: "int \<Rightarrow> (nat \<Rightarrow> real) \<Rightarrow> Asset list \<Rightarrow> Asset list" where
  "advance now rnd prevAssets = advance_from 0 now rnd prevAssets"

text \<open>Several ticks in a row, each with its own clock value and random stream, and the
  points they append to the history of the asset at index \<open>i\<close>, oldest first.\<close>

fun run_ticks :: "(int \<times> (nat \<Rightarrow> real)) list \<Rightarrow> Asset list \<Rightarrow> Asset list" where
  "run_ticks [] assets = assets"
| "run_ticks ((now, rnd) # envs) assets = run_ticks envs (advance now rnd assets)"

fun appended_points :: "(int \<times> (nat \<Rightarrow> real)) list \<Rightarrow> Asset list \<Rightarrow> nat \<Rightarrow> HistoryPoint list" where
  "appended_points [] assets i = []"
| "appended_points ((now, rnd) # envs) assets i =
     newHistoryPoint now (rnd (2 * i)) (rnd (2 * i + 1)) (assets ! i)
     # appended_points envs (advance now rnd assets) i"

section \<open>Limit order matching (src/App.tsx, the simulation effect)\<close>

record FillNotification =
  fn_type :: Side
  fn_quantity :: real
  fn_assetName :: string
  fn_targetPrice :: real

text \<open>The variables the \<open>forEach\<close> over the open orders updates. \<open>idCount\<close> counts the
  transaction ids drawn from \<open>generateId\<close> so far, \<open>gen k\<close> being the \<open>k\<close>-th of the
  pass.\<close>

record MatchState =
  newPortfolio :: Portfolio
  remainingOrders :: "LimitOrder list"
  portfolioChanged :: bool
  notifications :: "FillNotification list"
  idCount :: nat

text \<open>The two execution branches of the loop body: the portfolio after them, and the
  flag \<open>executed\<close>.\<close>

definition settle :: "Asset \<Rightarrow> LimitOrder \<Rightarrow> Portfolio \<Rightarrow> Portfolio \<times> bool" where
  "settle asset order np =
     (if lo_type order = BUY \<and> current_price asset \<le> lo_targetPrice order then
        (let cost = lo_quantity order * lo_targetPrice order;
             currentHolding = holding_or_default (holdings np) (a_id asset);
             oldTotalVal = js_times (quantity currentHolding) (avgCost currentHolding);
             newTotalVal = js_plus oldTotalVal cost;
             newQty = quantity currentHolding + lo_quantity order
         in (np\<lparr>holdings := (holdings np)(a_id asset \<mapsto>
                  \<lparr>quantity = newQty, avgCost = js_divide newTotalVal newQty\<rparr>)\<rparr>, True))
      else if lo_type order = SELL \<and> current_price asset \<ge> lo_targetPrice order then
        (let revenue = lo_quantity order * lo_targetPrice order
         in (np\<lparr>cashBalance := cashBalance np + revenue\<rparr>, True))
      else (np, False))"

definition process_order :: "Asset list \<Rightarrow> (nat \<Rightarrow> string) \<Rightarrow> int \<Rightarrow> LimitOrder \<Rightarrow> MatchState \<Rightarrow> MatchState" where
  "process_order newAssets gen now order st =
     (case find (\<lambda>a. a_id a = lo_assetId order) newAssets of
        None \<Rightarrow> st\<lparr>remainingOrders := remainingOrders st @ [order]\<rparr>
      | Some asset \<Rightarrow>
          (case settle asset order (newPortfolio st) of
             (np, executed) \<Rightarrow>
               if executed then
                 st\<lparr>newPortfolio := np\<lparr>transactions := transactions np @
                        [\<lparr>tx_id = gen (idCount st),
                          tx_type = lo_type order,
                          tx_assetId = a_id asset,
                          tx_assetName = a_name asset,
                          tx_quantity = lo_quantity order,
                          tx_price = lo_targetPrice order,
                          tx_timestamp = now,
                          tx_orderType = LIMIT\<rparr>]\<rparr>,
                    portfolioChanged := True,
                    notifications := notifications st @
                        [\<lparr>fn_type = lo_type order, fn_quantity = lo_quantity order,
                          fn_assetName = a_name asset, fn_targetPrice = lo_targetPrice order\<rparr>],
                    idCount := idCount st + 1\<rparr>
               else st\<lparr>remainingOrders := remainingOrders st @ [order]\<rparr>))"

fun match_orders :: "Asset list \<Rightarrow> (nat \<Rightarrow> string) \<Rightarrow> int \<Rightarrow> LimitOrder list \<Rightarrow> MatchState \<Rightarrow> MatchState" where
  "match_orders newAssets gen now [] st = st"
| "match_orders newAssets gen now (order # orders) st =
     match_orders newAssets gen now orders (process_order newAssets gen now order st)"

text \<open>What one tick returns and does: the new assets, the portfolio it hands to
  \<open>setPortfolio\<close> and \<open>updatePortfolio\<close> with the user's id (\<open>None\<close> when it calls
  neither), and the notifications it raises. \<open>user\<close> is the id of the authenticated
  user, \<open>None\<close> for \<open>null\<close>.\<close>

record TickResult =
  tr_assets :: "Asset list"
  tr_commit :: "(string \<times> Portfolio) option"
  tr_notifications :: "FillNotification list"

definition simulation_tick :: "string option \<Rightarrow> int \<Rightarrow> (nat \<Rightarrow> real) \<Rightarrow> (nat \<Rightarrow> string) \<Rightarrow> Asset list \<Rightarrow> Portfolio \<Rightarrow> TickResult" where
  "simulation_tick user now rnd gen prevAssets currentPortfolio =
     (let newAssets = advance now rnd prevAssets
      in case user of
           None \<Rightarrow> \<lparr>tr_assets = newAssets, tr_commit = None, tr_notifications = []\<rparr>
         | Some uid \<Rightarrow>
             if length (openOrders currentPortfolio) > 0 then
               (let copy = json_copy currentPortfolio;
                    st = match_orders newAssets gen now (openOrders copy)
                           \<lparr>newPortfolio = copy, remainingOrders = [],
                            portfolioChanged = False, notifications = [], idCount = 0\<rparr>
                in if portfolioChanged st then
                     \<lparr>tr_assets = newAssets,
                      tr_commit = Some (uid, (newPortfolio st)\<lparr>openOrders := remainingOrders st\<rparr>),
                      tr_notifications = notifications st\<rparr>
                   else
                     \<lparr>tr_assets = newAssets, tr_commit = None,
                      tr_notifications = notifications st\<rparr>)
             else \<lparr>tr_assets = newAssets, tr_commit = None, tr_notifications = []\<rparr>)"

text \<open>The portfolio state after the tick: replaced only by \<open>setPortfolio\<close>.\<close>

definition portfolio_after :: "Portfolio \<Rightarrow> TickResult \<Rightarrow> Portfolio" where
  "portfolio_after p r = (case tr_commit r of None \<Rightarrow> p | Some (uid, np) \<Rightarrow> np)"

text \<open>The execution rule in the words of the specification: a BUY executes when the
  asset's current price is at most the target price, a SELL when it is at least the
  target price, and an order whose asset does not exist does not execute.\<close>

definition spec_executes :: "Asset list \<Rightarrow> LimitOrder \<Rightarrow> bool" where
  "spec_executes assets order =
     (case find (\<lambda>a. a_id a = lo_assetId order) assets of
        None \<Rightarrow> False
      | Some a \<Rightarrow>
          (case lo_type order of
             BUY \<Rightarrow> current_price a \<le> lo_targetPrice order
           | SELL \<Rightarrow> lo_targetPrice order \<le> current_price a))"

section \<open>Trade requests (src/App.tsx handlers, src/components/TradePanel.tsx)\<close>

text \<open>Every early return of a handler is a rejection; a handler that runs to its end
  returns the portfolio it hands to \<open>setPortfolio\<close> and \<open>updatePortfolio\<close>.\<close>

datatype Rejection =
    AuthRequired
  | AssetNotFound
  | InsufficientFunds
  | InsufficientHoldings
  | InvalidQuantity
  | InvalidPrice
  | OrderNotFound

text \<open>\<open>orderType === 'LIMIT' ? (limitPrice || 0) : asset.current_price\<close>, the price of
  a request: \<open>limitPrice\<close> is \<open>None\<close> for \<open>undefined\<close>, and \<open>limitPrice || 0\<close> is
  the price itself otherwise (0 for 0).\<close>

definition request_price :: "Asset \<Rightarrow> OrderKind \<Rightarrow> real option \<Rightarrow> real" where
  "request_price asset orderType limitPrice =
     (if orderType = LIMIT then (case limitPrice of None \<Rightarrow> 0 | Some l \<Rightarrow> l)
      else current_price asset)"

text \<open>\<open>newId\<close> is the value \<open>generateId()\<close> returns for the order or transaction the
  call creates, \<open>now\<close> the value of \<open>Date.now()\<close>.\<close>

definition handleTrade :: "string option \<Rightarrow> Asset list \<Rightarrow> string \<Rightarrow> Portfolio \<Rightarrow> string \<Rightarrow> int \<Rightarrow> Side \<Rightarrow> real \<Rightarrow> OrderKind \<Rightarrow> real option \<Rightarrow> Rejection + Portfolio" where
  "handleTrade user assets selectedAssetId portfolio newId now type qty orderType limitPrice =
     (case user of
        None \<Rightarrow> Inl AuthRequired
      | Some uid \<Rightarrow>
     (case find (\<lambda>a. a_id a = selectedAssetId) assets of
        None \<Rightarrow> Inl AssetNotFound
      | Some asset \<Rightarrow>
          (let price = request_price asset orderType limitPrice;
               cost = price * qty;
               newPortfolio = json_copy portfolio;
               currentHolding = holding_or_default (holdings newPortfolio) selectedAssetId;
               newOrder = \<lparr>lo_id = newId, lo_assetId = selectedAssetId, lo_type = type,
                           lo_quantity = qty, lo_targetPrice = price, lo_timestamp = now\<rparr>;
               record_market = (\<lambda>np. if orderType = MARKET
                  then np\<lparr>transactions := transactions np @
                         [\<lparr>tx_id = newId, tx_type = type, tx_assetId = selectedAssetId,
                           tx_assetName = a_name asset, tx_quantity = qty, tx_price = price,
                           tx_timestamp = now, tx_orderType = MARKET\<rparr>]\<rparr>
                  else np)
           in case type of
                BUY \<Rightarrow>
                  if cashBalance newPortfolio < cost then Inl InsufficientFunds
                  else
                    (let np1 = newPortfolio\<lparr>cashBalance := cashBalance newPortfolio - cost\<rparr>;
                         np2 = (if orderType = MARKET then
                                  (let oldTotalValue = js_times (quantity currentHolding) (avgCost currentHolding);
                                       newTotalValue = js_plus oldTotalValue cost;
                                       newQuantity = quantity currentHolding + qty
                                   in np1\<lparr>holdings := (holdings np1)(selectedAssetId \<mapsto>
                                         \<lparr>quantity = newQuantity,
                                          avgCost = js_divide newTotalValue newQuantity\<rparr>)\<rparr>)
                                else np1\<lparr>openOrders := openOrders np1 @ [newOrder]\<rparr>)
                     in Inr (record_market np2))
              | SELL \<Rightarrow>
                  if quantity currentHolding < qty then Inl InsufficientHoldings
                  else
                    (let np1 = newPortfolio\<lparr>holdings := (holdings newPortfolio)(selectedAssetId \<mapsto>
                                  currentHolding\<lparr>quantity := quantity currentHolding - qty\<rparr>)\<rparr>;
                         np2 = (if orderType = MARKET
                                then np1\<lparr>cashBalance := cashBalance np1 + cost\<rparr>
                                else np1\<lparr>openOrders := openOrders np1 @ [newOrder]\<rparr>)
                     in Inr (record_market np2)))))"

fun findIndex :: "('a \<Rightarrow> bool) \<Rightarrow> 'a list \<Rightarrow> nat option" where
  "findIndex P [] = None"
| "findIndex P (x # xs) = (if P x then Some 0 else map_option Suc (findIndex P xs))"

definition handleCancelOrder :: "string option \<Rightarrow> Portfolio \<Rightarrow> string \<Rightarrow> Rejection + Portfolio" where
  "handleCancelOrder user portfolio orderId =
     (case user of
        None \<Rightarrow> Inl AuthRequired
      | Some uid \<Rightarrow>
          (let newPortfolio = json_copy portfolio
           in case findIndex (\<lambda>ord. lo_id ord = orderId) (openOrders newPortfolio) of
                None \<Rightarrow> Inl OrderNotFound
              | Some orderIndex \<Rightarrow>
                  (let order = openOrders newPortfolio ! orderIndex;
                       np1 = (if lo_type order = BUY then
                                newPortfolio\<lparr>cashBalance := cashBalance newPortfolio
                                   + (lo_quantity order * lo_targetPrice order)\<rparr>
                              else
                                (let holding = holding_or_default (holdings newPortfolio) (lo_assetId order)
                                 in newPortfolio\<lparr>holdings := (holdings newPortfolio)(lo_assetId order \<mapsto>
                                       holding\<lparr>quantity := quantity holding + lo_quantity order\<rparr>)\<rparr>))
                   in Inr (np1\<lparr>openOrders := take orderIndex (openOrders np1)
                                              @ drop (Suc orderIndex) (openOrders np1)\<rparr>))))"

text \<open>The submit handler of the trade panel. \<open>numericQty\<close> is \<open>parseInt(quantity) || 0\<close>
  and \<open>numericLimitPrice\<close> is \<open>parseFloat(limitPrice) || 0\<close>: the parsed values of
  the two input fields. It returns the arguments of its call of \<open>onTrade\<close>.\<close>

definition handleSubmit :: "Asset \<Rightarrow> Portfolio \<Rightarrow> Side \<Rightarrow> OrderKind \<Rightarrow> int \<Rightarrow> real \<Rightarrow> Rejection + (Side \<times> real \<times> OrderKind \<times> real option)" where
  "handleSubmit asset portfolio mode orderType numericQty numericLimitPrice =
     (let holding = holding_or_default (holdings portfolio) (a_id asset);
          executionPrice = (if orderType = MARKET then current_price asset else numericLimitPrice);
          totalCost = real_of_int numericQty * executionPrice;
          canBuy = (cashBalance portfolio \<ge> totalCost);
          canSell = (quantity holding \<ge> real_of_int numericQty)
      in if numericQty \<le> 0 then Inl InvalidQuantity
         else if orderType = LIMIT \<and> numericLimitPrice \<le> 0 then Inl InvalidPrice
         else if mode = BUY \<and> \<not> canBuy then Inl InsufficientFunds
         else if mode = SELL \<and> \<not> canSell then Inl InsufficientHoldings
         else Inr (mode, real_of_int numericQty, orderType,
                   if orderType = LIMIT then Some numericLimitPrice else None))"

text \<open>A trade request: the panel's submit handler, then \<open>onTrade = handleTrade\<close>. The
  panel is given \<open>asset\<close> (the selected asset) and the portfolio as props.\<close>

definition trade_request :: "string option \<Rightarrow> Asset list \<Rightarrow> string \<Rightarrow> Portfolio \<Rightarrow> Asset \<Rightarrow> string \<Rightarrow> int \<Rightarrow> Side \<Rightarrow> OrderKind \<Rightarrow> int \<Rightarrow> real \<Rightarrow> Rejection + Portfolio" where
  "trade_request user assets selectedAssetId portfolio asset newId now mode orderType numericQty numericLimitPrice =
     (case handleSubmit asset portfolio mode orderType numericQty numericLimitPrice of
        Inl e \<Rightarrow> Inl e
      | Inr (type, qty, kind, limitPrice) \<Rightarrow>
          handleTrade user assets selectedAssetId portfolio newId now type qty kind limitPrice)"

text \<open>The portfolio state after a handler: replaced only when the handler reaches
  \<open>setPortfolio\<close>.\<close>

definition commit :: "Portfolio \<Rightarrow> Rejection + Portfolio \<Rightarrow> Portfolio" where
  "commit p r = (case r of Inl e \<Rightarrow> p | Inr np \<Rightarrow> np)"

section \<open>The application as a state machine\<close>

text \<open>The state hooks of \<open>App\<close> that the handlers and the tick read and write:
  \<open>assets\<close>, \<open>selectedAssetId\<close>, \<open>portfolio\<close> and \<open>user\<close>.\<close>

record AppState =
  st_assets :: "Asset list"
  st_selectedAssetId :: string
  st_portfolio :: Portfolio
  st_user :: "string option"

text \<open>\<open>assets.find(a => a.id === selectedAssetId) || assets[0]\<close>; with no asset at all
  the panel has nothing to render and no request can be submitted.\<close>

definition selectedAsset :: "Asset list \<Rightarrow> string \<Rightarrow> Asset option" where
  "selectedAsset as sel =
     (case find (\<lambda>a. a_id a = sel) as of
        Some a \<Rightarrow> Some a
      | None \<Rightarrow> (case as of [] \<Rightarrow> None | a # rest \<Rightarrow> Some a))"

datatype Event =
    Tick int "nat \<Rightarrow> real" "nat \<Rightarrow> string"
  | Submit Side OrderKind int real string int
  | CancelOrder string
  | SelectAsset string

fun app_step :: "AppState \<Rightarrow> Event \<Rightarrow> AppState" where
  "app_step st (Tick now rnd gen) =
     (let r = simulation_tick (st_user st) now rnd gen (st_assets st) (st_portfolio st)
      in st\<lparr>st_assets := tr_assets r, st_portfolio := portfolio_after (st_portfolio st) r\<rparr>)"
| "app_step st (Submit mode orderType numericQty numericLimitPrice newId now) =
     (case selectedAsset (st_assets st) (st_selectedAssetId st) of
        None \<Rightarrow> st
      | Some asset \<Rightarrow>
          st\<lparr>st_portfolio := commit (st_portfolio st)
               (trade_request (st_user st) (st_assets st) (st_selectedAssetId st) (st_portfolio st) asset
                  newId now mode orderType numericQty numericLimitPrice)\<rparr>)"
| "app_step st (CancelOrder orderId) =
     st\<lparr>st_portfolio := commit (st_portfolio st) (handleCancelOrder (st_user st) (st_portfolio st) orderId)\<rparr>"
| "app_step st (SelectAsset sel) = st\<lparr>st_selectedAssetId := sel\<rparr>"

fun run_events :: "AppState \<Rightarrow> Event list \<Rightarrow> AppState" where
  "run_events st [] = st"
| "run_events st (e # es) = run_events (app_step st e) es"

section \<open>Specification-side notions and example data\<close>

text \<open>Example data: an asset priced at 10 with a history of one point.\<close>

definition demo_asset :: Asset where
  "demo_asset = \<lparr>a_id = ''TOM'', a_name = ''Tomato'', initial_price = 10, current_price = 10,
     history = [\<lparr>time = 0, price = 10, volume = 0\<rparr>], change24h = Num 0\<rparr>"

text \<open>What a transaction records apart from its id, asset name and timestamp, and the same for the fill of a limit order at its target price.\<close>

definition tx_summary :: "Transaction \<Rightarrow> Side \<times> string \<times> real \<times> real \<times> OrderKind" where
  "tx_summary t = (tx_type t, tx_assetId t, tx_quantity t, tx_price t, tx_orderType t)"

definition fill_of :: "LimitOrder \<Rightarrow> Side \<times> string \<times> real \<times> real \<times> OrderKind" where
  "fill_of order = (lo_type order, lo_assetId order, lo_quantity order, lo_targetPrice order, LIMIT)"

text \<open>Two limit orders at a target price of 12, and portfolios and a loop state that hold them.\<close>

definition demo_buy_order :: LimitOrder where
  "demo_buy_order = \<lparr>lo_id = ''o1'', lo_assetId = ''TOM'', lo_type = BUY,
     lo_quantity = 5, lo_targetPrice = 12, lo_timestamp = 0\<rparr>"

definition demo_sell_order :: LimitOrder where
  "demo_sell_order = \<lparr>lo_id = ''o2'', lo_assetId = ''TOM'', lo_type = SELL,
     lo_quantity = 5, lo_targetPrice = 12, lo_timestamp = 0\<rparr>"

definition demo_portfolio :: Portfolio where
  "demo_portfolio = DEFAULT_PORTFOLIO_DATA\<lparr>openOrders := [demo_buy_order, demo_sell_order]\<rparr>"

definition demo_resting :: Portfolio where
  "demo_resting = DEFAULT_PORTFOLIO_DATA\<lparr>openOrders := [demo_sell_order]\<rparr>"

definition demo_match_state :: MatchState where
  "demo_match_state = \<lparr>newPortfolio = demo_portfolio, remainingOrders = [],
     portfolioChanged = False, notifications = [], idCount = 0\<rparr>"

text \<open>The escrow value of every open order is not negative; no asset price is negative; both, with a cash balance that is not negative.\<close>

definition escrow_nonneg :: "Portfolio \<Rightarrow> bool" where
  "escrow_nonneg p = (\<forall>order \<in> set (openOrders p). 0 \<le> lo_quantity order * lo_targetPrice order)"

definition prices_nonneg :: "Asset list \<Rightarrow> bool" where
  "prices_nonneg as = (\<forall>a \<in> set as. 0 \<le> current_price a)"

definition ledger_ok :: "AppState \<Rightarrow> bool" where
  "ledger_ok st = (0 \<le> cashBalance (st_portfolio st) \<and> escrow_nonneg (st_portfolio st)
                    \<and> prices_nonneg (st_assets st))"

text \<open>The example asset at a price of 20.\<close>

definition demo_asset20 :: Asset where
  "demo_asset20 = demo_asset\<lparr>current_price := 20\<rparr>"

text \<open>The initial state of \<open>App\<close>: the initial assets, the first asset selected, the default portfolio.\<close>

definition initial_state :: "string option \<Rightarrow> int \<Rightarrow> (nat \<Rightarrow> real) \<Rightarrow> AppState" where
  "initial_state usr now rnd =
     \<lparr>st_assets = initial_assets now rnd, st_selectedAssetId = ''TOM'',
      st_portfolio = DEFAULT_PORTFOLIO_DATA, st_user = usr\<rparr>"

definition demo_events :: "Event list" where
  "demo_events = [Submit BUY LIMIT 5 12 ''o1'' 1, Tick 2 (\<lambda>n. 1 / 2) (\<lambda>n. ''t''),
                  Submit SELL MARKET 3 0 ''t2'' 3, CancelOrder ''o1'']"

text \<open>The example asset at a price of 12.5.\<close>

definition demo_asset_up :: Asset where
  "demo_asset_up = demo_asset\<lparr>current_price := 125 / 10\<rparr>"

text \<open>The three steps of a scenario: a market BUY of 100 at 10, a limit SELL of 50 at 12, and a tick at a price of 12.5.\<close>

definition scenario_bought :: Portfolio where
  "scenario_bought = commit DEFAULT_PORTFOLIO_DATA
     (handleTrade (Some ''u'') [demo_asset] ''TOM'' DEFAULT_PORTFOLIO_DATA ''t1'' 1 BUY 100 MARKET None)"

definition scenario_resting :: Portfolio where
  "scenario_resting = commit scenario_bought
     (handleTrade (Some ''u'') [demo_asset] ''TOM'' scenario_bought ''o1'' 2 SELL 50 LIMIT (Some 12))"

definition scenario_filled :: Portfolio where
  "scenario_filled = portfolio_after scenario_resting
     (simulation_tick (Some ''u'') 3 (\<lambda>n. 1 / 2) (\<lambda>n. ''t2'') [demo_asset_up] scenario_resting)"

section \<open>Double-precision arithmetic\<close>

text \<open>The numbers of the program are IEEE 754 binary64 values and every arithmetic result is rounded to the nearest of them, ties to even. \<open>binary64 x\<close> is that rounding of the real \<open>x\<close>: an integer mantissa of at most 53 bits times a power of two whose exponent is at least \<open>-1074\<close> (below that exponent the numbers are subnormal). Overflow to \<open>Infinity\<close> (a magnitude of \<open>2 ^ 1024\<close> or more) is not modelled. \<open>round_half_even\<close> rounds a real to the nearest integer, ties to the even one.\<close>

definition round_half_even :: "real \<Rightarrow> int" where
  "round_half_even x =
     (let f = \<lfloor>x\<rfloor>; d = x - of_int f
      in if d < 1 / 2 then f else if 1 / 2 < d then f + 1 else if even f then f else f + 1)"

text \<open>The exponent of the result, found by scaling the magnitude \<open>m\<close> into \<open>[2 ^ 52, 2 ^ 53)\<close>, downwards no further than \<open>-1074\<close>; 2200 steps suffice for every double.\<close>

fun exponent_from :: "nat \<Rightarrow> real \<Rightarrow> int \<Rightarrow> int" where
  "exponent_from 0 m e = e"
| "exponent_from (Suc n) m e =
     (if m < 2 ^ 52 then (if e \<le> - 1074 then e else exponent_from n (m * 2) (e - 1))
      else if 2 ^ 53 \<le> m then exponent_from n (m / 2) (e + 1)
      else e)"

definition binary64 :: "real \<Rightarrow> real" where
  "binary64 x =
     (if x = 0 then 0
      else (let e = exponent_from 2200 \<bar>x\<bar> 0
            in of_int (round_half_even (x / 2 powi e)) * 2 powi e))"

text \<open>The arithmetic on values that may be non-finite or null, each finite result rounded by \<open>fl\<close>.\<close>

fun js_times_fp :: "(real \<Rightarrow> real) \<Rightarrow> real \<Rightarrow> jsnum \<Rightarrow> jsnum" where
  "js_times_fp fl a (Num b) = Num (fl (a * b))"
| "js_times_fp fl a NonFinite = NonFinite"
| "js_times_fp fl a Null = Num (fl (a * 0))"

fun js_plus_fp :: "(real \<Rightarrow> real) \<Rightarrow> jsnum \<Rightarrow> real \<Rightarrow> jsnum" where
  "js_plus_fp fl (Num a) b = Num (fl (a + b))"
| "js_plus_fp fl NonFinite b = NonFinite"
| "js_plus_fp fl Null b = Num (fl (0 + b))"

fun js_divide_fp :: "(real \<Rightarrow> real) \<Rightarrow> jsnum \<Rightarrow> real \<Rightarrow> jsnum" where
  "js_divide_fp fl (Num a) b = (if b = 0 then NonFinite else Num (fl (a / b)))"
| "js_divide_fp fl NonFinite b = NonFinite"
| "js_divide_fp fl Null b = (if b = 0 then NonFinite else Num (fl (0 / b)))"

text \<open>\<open>handleTrade\<close> and \<open>handleCancelOrder\<close> with every arithmetic result rounded by \<open>fl\<close>. With \<open>binary64\<close> for \<open>fl\<close> these are the handlers in the program's own double arithmetic; with the identity they are the handlers over the reals defined above.\<close>

definition handleTrade_fp :: "(real \<Rightarrow> real) \<Rightarrow> string option \<Rightarrow> Asset list \<Rightarrow> string \<Rightarrow> Portfolio \<Rightarrow> string \<Rightarrow> int \<Rightarrow> Side \<Rightarrow> real \<Rightarrow> OrderKind \<Rightarrow> real option \<Rightarrow> Rejection + Portfolio" where
  "handleTrade_fp fl user assets selectedAssetId portfolio newId now type qty orderType limitPrice =
     (case user of
        None \<Rightarrow> Inl AuthRequired
      | Some uid \<Rightarrow>
     (case find (\<lambda>a. a_id a = selectedAssetId) assets of
        None \<Rightarrow> Inl AssetNotFound
      | Some asset \<Rightarrow>
          (let price = request_price asset orderType limitPrice;
               cost = fl (price * qty);
               newPortfolio = json_copy portfolio;
               currentHolding = holding_or_default (holdings newPortfolio) selectedAssetId;
               newOrder = \<lparr>lo_id = newId, lo_assetId = selectedAssetId, lo_type = type,
                           lo_quantity = qty, lo_targetPrice = price, lo_timestamp = now\<rparr>;
               record_market = (\<lambda>np. if orderType = MARKET
                  then np\<lparr>transactions := transactions np @
                         [\<lparr>tx_id = newId, tx_type = type, tx_assetId = selectedAssetId,
                           tx_assetName = a_name asset, tx_quantity = qty, tx_price = price,
                           tx_timestamp = now, tx_orderType = MARKET\<rparr>]\<rparr>
                  else np)
           in case type of
                BUY \<Rightarrow>
                  if cashBalance newPortfolio < cost then Inl InsufficientFunds
                  else
                    (let np1 = newPortfolio\<lparr>cashBalance := fl (cashBalance newPortfolio - cost)\<rparr>;
                         np2 = (if orderType = MARKET then
                                  (let oldTotalValue = js_times_fp fl (quantity currentHolding) (avgCost currentHolding);
                                       newTotalValue = js_plus_fp fl oldTotalValue cost;
                                       newQuantity = fl (quantity currentHolding + qty)
                                   in np1\<lparr>holdings := (holdings np1)(selectedAssetId \<mapsto>
                                         \<lparr>quantity = newQuantity,
                                          avgCost = js_divide_fp fl newTotalValue newQuantity\<rparr>)\<rparr>)
                                else np1\<lparr>openOrders := openOrders np1 @ [newOrder]\<rparr>)
                     in Inr (record_market np2))
              | SELL \<Rightarrow>
                  if quantity currentHolding < qty then Inl InsufficientHoldings
                  else
                    (let np1 = newPortfolio\<lparr>holdings := (holdings newPortfolio)(selectedAssetId \<mapsto>
                                  currentHolding\<lparr>quantity := fl (quantity currentHolding - qty)\<rparr>)\<rparr>;
                         np2 = (if orderType = MARKET
                                then np1\<lparr>cashBalance := fl (cashBalance np1 + cost)\<rparr>
                                else np1\<lparr>openOrders := openOrders np1 @ [newOrder]\<rparr>)
                     in Inr (record_market np2)))))"

definition handleCancelOrder_fp :: "(real \<Rightarrow> real) \<Rightarrow> string option \<Rightarrow> Portfolio \<Rightarrow> string \<Rightarrow> Rejection + Portfolio" where
  "handleCancelOrder_fp fl user portfolio orderId =
     (case user of
        None \<Rightarrow> Inl AuthRequired
      | Some uid \<Rightarrow>
          (let newPortfolio = json_copy portfolio
           in case findIndex (\<lambda>ord. lo_id ord = orderId) (openOrders newPortfolio) of
                None \<Rightarrow> Inl OrderNotFound
              | Some orderIndex \<Rightarrow>
                  (let order = openOrders newPortfolio ! orderIndex;
                       np1 = (if lo_type order = BUY then
                                newPortfolio\<lparr>cashBalance := fl (cashBalance newPortfolio
                                   + fl (lo_quantity order * lo_targetPrice order))\<rparr>
                              else
                                (let holding = holding_or_default (holdings newPortfolio) (lo_assetId order)
                                 in newPortfolio\<lparr>holdings := (holdings newPortfolio)(lo_assetId order \<mapsto>
                                       holding\<lparr>quantity := fl (quantity holding + lo_quantity order)\<rparr>)\<rparr>))
                   in Inr (np1\<lparr>openOrders := take orderIndex (openOrders np1)
                                              @ drop (Suc orderIndex) (openOrders np1)\<rparr>))))"

text \<open>Example data in double precision: a carrot at 45.2, the portfolio after a market buy of 3 units, after then placing a limit BUY of 13 units at 16.08, and after cancelling that order.\<close>

definition car_asset :: Asset where
  "car_asset = \<lparr>a_id = ''CAR'', a_name = ''Carrot'', initial_price = binary64 (4520 / 100),
     current_price = binary64 (4520 / 100),
     history = [\<lparr>time = 0, price = binary64 (4520 / 100), volume = 0\<rparr>], change24h = Num 0\<rparr>"

definition fp_bought :: Portfolio where
  "fp_bought = commit DEFAULT_PORTFOLIO_DATA
     (handleTrade_fp binary64 (Some ''u'') [car_asset] ''CAR'' DEFAULT_PORTFOLIO_DATA ''t1'' 1
        BUY 3 MARKET None)"

definition fp_placed :: Portfolio where
  "fp_placed = commit fp_bought
     (handleTrade_fp binary64 (Some ''u'') [car_asset] ''CAR'' fp_bought ''o1'' 2
        BUY 13 LIMIT (Some (binary64 (1608 / 100))))"

definition fp_cancelled :: Portfolio where
  "fp_cancelled = commit fp_placed (handleCancelOrder_fp binary64 (Some ''u'') fp_placed ''o1'')"

text \<open>In double precision: buying 10 units at 10, 10 more at 20, selling 5; and a limit BUY of 5 at 12 placed from the default portfolio.\<close>

definition fp_after_buy1 :: Portfolio where
  "fp_after_buy1 = commit DEFAULT_PORTFOLIO_DATA
     (handleTrade_fp binary64 (Some ''u'') [demo_asset] ''TOM'' DEFAULT_PORTFOLIO_DATA ''t1'' 1
        BUY 10 MARKET None)"

definition fp_after_buy2 :: Portfolio where
  "fp_after_buy2 = commit fp_after_buy1
     (handleTrade_fp binary64 (Some ''u'') [demo_asset20] ''TOM'' fp_after_buy1 ''t2'' 2
        BUY 10 MARKET None)"

definition fp_after_sell :: Portfolio where
  "fp_after_sell = commit fp_after_buy2
     (handleTrade_fp binary64 (Some ''u'') [demo_asset20] ''TOM'' fp_after_buy2 ''t3'' 3
        SELL 5 MARKET None)"

definition fp_demo_placed :: Portfolio where
  "fp_demo_placed = commit DEFAULT_PORTFOLIO_DATA
     (handleTrade_fp binary64 (Some ''u'') [demo_asset] ''TOM'' DEFAULT_PORTFOLIO_DATA ''o1'' 1
        BUY 5 LIMIT (Some 12))"

section \<open>Settlement in the words of the specification, and further example data\<close>

text \<open>\<open>applyFill\<close> in the words of the specification: a filled BUY updates only the holding of the asset, by the weighted-average join at the target price; a filled SELL only credits the cash by quantity times target price.\<close>

definition spec_apply_fill :: "Portfolio \<Rightarrow> LimitOrder \<Rightarrow> Portfolio" where
  "spec_apply_fill ledger order =
     (case lo_type order of
        BUY \<Rightarrow>
          (let h = holding_or_default (holdings ledger) (lo_assetId order)
           in ledger\<lparr>holdings := (holdings ledger)(lo_assetId order \<mapsto>
                \<lparr>quantity = quantity h + lo_quantity order,
                 avgCost = js_divide (js_plus (js_times (quantity h) (avgCost h))
                                        (lo_quantity order * lo_targetPrice order))
                                     (quantity h + lo_quantity order)\<rparr>)\<rparr>)
      | SELL \<Rightarrow>
          ledger\<lparr>cashBalance := cashBalance ledger + lo_quantity order * lo_targetPrice order\<rparr>)"


section \<open>The price engine: properties\<close>

lemma advance_from_length: "length (advance_from k now rnd as) = length as"
  by (induction as arbitrary: k) simp_all

lemma advance_from_nth:
  "i < length as \<Longrightarrow>
   advance_from k now rnd as ! i = tick_asset now (rnd (k + 2 * i)) (rnd (k + 2 * i + 1)) (as ! i)"
proof (induction as arbitrary: k i)
  case Nil
  then show ?case by simp
next
  case (Cons a as)
  show ?case
  proof (cases i)
    case 0
    then show ?thesis by simp
  next
    case (Suc j)
    with Cons.prems have "j < length as" by simp
    from Cons.IH[OF this, of "k + 2"] Suc show ?thesis by (simp add: add.assoc)
  qed
qed

lemma advance_length: "length (advance now rnd as) = length as"
  by (simp add: advance_def advance_from_length)

lemma advance_nth:
  "i < length as \<Longrightarrow>
   advance now rnd as ! i = tick_asset now (rnd (2 * i)) (rnd (2 * i + 1)) (as ! i)"
  using advance_from_nth[of i as 0 now rnd] by (simp add: advance_def)

lemma tick_asset_fields:
  "current_price (tick_asset now r1 r2 a) = newPrice r1 a"
  "history (tick_asset now r1 r2 a) = drop 1 (history a) @ [newHistoryPoint now r1 r2 a]"
  "a_id (tick_asset now r1 r2 a) = a_id a"
  "a_name (tick_asset now r1 r2 a) = a_name a"
  by (simp_all add: tick_asset_def Let_def)

lemma newPrice_floor: "1 / 100 \<le> newPrice r a"
  by (simp add: newPrice_def Let_def)



lemma run_ticks_length: "length (run_ticks envs as) = length as"
  by (induction envs as rule: run_ticks.induct) (simp_all add: advance_length)

lemma appended_points_length: "length (appended_points envs as i) = length envs"
  by (induction envs as i rule: appended_points.induct) simp_all

lemma run_ticks_history:
  "i < length as \<Longrightarrow> history (as ! i) \<noteq> [] \<Longrightarrow>
   history (run_ticks envs as ! i)
     = drop (length envs) (history (as ! i) @ appended_points envs as i)"
proof (induction envs arbitrary: as)
  case Nil
  then show ?case by simp
next
  case (Cons env envs)
  obtain now rnd where env: "env = (now, rnd)" by (cases env)
  let ?as' = "advance now rnd as"
  let ?pt = "newHistoryPoint now (rnd (2 * i)) (rnd (2 * i + 1)) (as ! i)"
  have len: "i < length ?as'" using Cons.prems(1) by (simp add: advance_length)
  have hist: "history (?as' ! i) = drop 1 (history (as ! i)) @ [?pt]"
    using Cons.prems(1) by (simp add: advance_nth tick_asset_fields)
  then have ne: "history (?as' ! i) \<noteq> []" by simp
  obtain x h' where h: "history (as ! i) = x # h'"
    using Cons.prems(2) by (cases "history (as ! i)") auto
  have "history (run_ticks (env # envs) as ! i)
      = drop (length envs) (history (?as' ! i) @ appended_points envs ?as' i)"
    using Cons.IH[OF len ne] env by simp
  also have "\<dots> = drop (length (env # envs)) (history (as ! i) @ appended_points (env # envs) as i)"
    using env hist h by simp
  finally show ?case .
qed

lemma initial_history_length: "length (initial_history now rnd p) = HISTORY_POINTS"
  by (simp add: initial_history_def)

lemma initial_assets_from_history:
  "i < length (initial_assets_from k now rnd cfg) \<Longrightarrow>
   length (history (initial_assets_from k now rnd cfg ! i)) = HISTORY_POINTS"
proof (induction k now rnd cfg arbitrary: i rule: initial_assets_from.induct)
  case (1 k now rnd)
  then show ?case by simp
next
  case (2 k now rnd a n p rest)
  then show ?case by (cases i) (simp_all add: initial_history_length)
qed

lemma initial_assets_history:
  "i < length (initial_assets now rnd) \<Longrightarrow>
   length (history (initial_assets now rnd ! i)) = HISTORY_POINTS"
  by (simp add: initial_assets_def initial_assets_from_history)

lemma initial_assets_length: "length (initial_assets now rnd) = 5"
  by (simp add: initial_assets_def INITIAL_ASSETS_def)

text \<open>Claim C9. The capacity is 50. From the initial assets, after any number of ticks every history has exactly 50 points: it is what remains of the initial history followed by the appended points, oldest first, after dropping one point per tick from the front. After \<open>50 + k\<close> ticks these are the 50 most recent appended points.\<close>

theorem history_rolling_window:
  assumes "i < length (initial_assets now0 rnd0)"
  shows "HISTORY_POINTS = 50
     \<and> length (history (run_ticks envs (initial_assets now0 rnd0) ! i)) = HISTORY_POINTS
     \<and> history (run_ticks envs (initial_assets now0 rnd0) ! i)
         = drop (length envs) (history (initial_assets now0 rnd0 ! i)
                                 @ appended_points envs (initial_assets now0 rnd0) i)
     \<and> (length envs = HISTORY_POINTS + k \<longrightarrow>
          history (run_ticks envs (initial_assets now0 rnd0) ! i)
            = drop k (appended_points envs (initial_assets now0 rnd0) i))"
proof -
  let ?as = "initial_assets now0 rnd0"
  have len: "length (history (?as ! i)) = HISTORY_POINTS"
    using assms by (rule initial_assets_history)
  then have ne: "history (?as ! i) \<noteq> []" by (auto simp: HISTORY_POINTS_def)
  have eq: "history (run_ticks envs ?as ! i)
      = drop (length envs) (history (?as ! i) @ appended_points envs ?as i)"
    using assms ne by (rule run_ticks_history)
  have l: "length (history (run_ticks envs ?as ! i)) = HISTORY_POINTS"
    unfolding eq using len by (simp add: appended_points_length)
  have k: "length envs = HISTORY_POINTS + k \<longrightarrow>
          history (run_ticks envs ?as ! i) = drop k (appended_points envs ?as i)"
    unfolding eq using len by simp
  show ?thesis using eq l k by (simp add: HISTORY_POINTS_def)
qed

text \<open>C9 after 51 ticks: 50 points, the appended ones but the first.\<close>

theorem history_rolling_window_witness:
  "length (history (run_ticks (replicate 51 (0, \<lambda>n. 1 / 2)) (initial_assets 0 (\<lambda>n. 0)) ! 0)) = 50
   \<and> history (run_ticks (replicate 51 (0, \<lambda>n. 1 / 2)) (initial_assets 0 (\<lambda>n. 0)) ! 0)
       = drop 1 (appended_points (replicate 51 (0, \<lambda>n. 1 / 2)) (initial_assets 0 (\<lambda>n. 0)) 0)"
proof -
  have h: "0 < length (initial_assets 0 (\<lambda>n. 0))"
    by (simp add: initial_assets_length)
  have n: "length (replicate 51 (0 :: int, \<lambda>n :: nat. 1 / 2 :: real)) = HISTORY_POINTS + 1"
    by (simp add: HISTORY_POINTS_def)
  note t = history_rolling_window[OF h, of "replicate 51 (0, \<lambda>n. 1 / 2)" 1]
  from t have a: "length (history (run_ticks (replicate 51 (0, \<lambda>n. 1 / 2)) (initial_assets 0 (\<lambda>n. 0)) ! 0)) = HISTORY_POINTS"
    by blast
  from t n have b: "history (run_ticks (replicate 51 (0, \<lambda>n. 1 / 2)) (initial_assets 0 (\<lambda>n. 0)) ! 0)
       = drop 1 (appended_points (replicate 51 (0, \<lambda>n. 1 / 2)) (initial_assets 0 (\<lambda>n. 0)) 0)"
    by blast
  from a b show ?thesis unfolding HISTORY_POINTS_def by blast
qed


section \<open>Limit order matching: properties\<close>

lemma json_copy_fields:
  "cashBalance (json_copy p) = cashBalance p"
  "transactions (json_copy p) = transactions p"
  "openOrders (json_copy p) = openOrders p"
  by (simp_all add: json_copy_def)

lemma find_id: "find (\<lambda>a. a_id a = k) as = Some a \<Longrightarrow> a_id a = k"
  by (induction as) (auto split: if_splits)

lemma settle_executed:
  "snd (settle asset order np)
     = (case lo_type order of
          BUY \<Rightarrow> current_price asset \<le> lo_targetPrice order
        | SELL \<Rightarrow> lo_targetPrice order \<le> current_price asset)"
  by (cases "lo_type order") (simp_all add: settle_def Let_def)

lemma settle_frame:
  "transactions (fst (settle asset order np)) = transactions np"
  "openOrders (fst (settle asset order np)) = openOrders np"
  by (simp_all add: settle_def Let_def)

lemma settle_not_executed: "\<not> snd (settle asset order np) \<Longrightarrow> fst (settle asset order np) = np"
  by (auto simp: settle_def Let_def split: if_splits)

lemma spec_executes_settle:
  "find (\<lambda>a. a_id a = lo_assetId order) newAssets = Some asset \<Longrightarrow>
   spec_executes newAssets order = snd (settle asset order np)"
  by (simp add: spec_executes_def settle_executed)

lemma spec_executes_no_asset:
  "find (\<lambda>a. a_id a = lo_assetId order) newAssets = None \<Longrightarrow> \<not> spec_executes newAssets order"
  by (simp add: spec_executes_def)

lemma process_order_remaining:
  "remainingOrders (process_order newAssets gen now order st)
     = remainingOrders st @ (if spec_executes newAssets order then [] else [order])"
proof (cases "find (\<lambda>a. a_id a = lo_assetId order) newAssets")
  case None
  then show ?thesis by (simp add: process_order_def spec_executes_no_asset)
next
  case (Some asset)
  obtain np ex where s: "settle asset order (newPortfolio st) = (np, ex)"
    by (cases "settle asset order (newPortfolio st)")
  have "spec_executes newAssets order = ex"
    using spec_executes_settle[OF Some, of "newPortfolio st"] s by simp
  then show ?thesis using Some s by (simp add: process_order_def)
qed

lemma process_order_changed:
  "portfolioChanged (process_order newAssets gen now order st)
     = (portfolioChanged st \<or> spec_executes newAssets order)"
proof (cases "find (\<lambda>a. a_id a = lo_assetId order) newAssets")
  case None
  then show ?thesis by (simp add: process_order_def spec_executes_no_asset)
next
  case (Some asset)
  obtain np ex where s: "settle asset order (newPortfolio st) = (np, ex)"
    by (cases "settle asset order (newPortfolio st)")
  have "spec_executes newAssets order = ex"
    using spec_executes_settle[OF Some, of "newPortfolio st"] s by simp
  then show ?thesis using Some s by (simp add: process_order_def)
qed

lemma process_order_unchanged:
  "\<not> spec_executes newAssets order \<Longrightarrow>
   newPortfolio (process_order newAssets gen now order st) = newPortfolio st
   \<and> notifications (process_order newAssets gen now order st) = notifications st"
proof (cases "find (\<lambda>a. a_id a = lo_assetId order) newAssets")
  case None
  then show ?thesis by (simp add: process_order_def)
next
  case (Some asset)
  assume n: "\<not> spec_executes newAssets order"
  obtain np ex where s: "settle asset order (newPortfolio st) = (np, ex)"
    by (cases "settle asset order (newPortfolio st)")
  have "spec_executes newAssets order = ex"
    using spec_executes_settle[OF Some, of "newPortfolio st"] s by simp
  with n have "\<not> ex" by simp
  then show ?thesis using Some s by (simp add: process_order_def)
qed

lemma process_order_transactions:
  "\<exists>ts. transactions (newPortfolio (process_order newAssets gen now order st))
          = transactions (newPortfolio st) @ ts
      \<and> map tx_summary ts = (if spec_executes newAssets order then [fill_of order] else [])"
proof (cases "find (\<lambda>a. a_id a = lo_assetId order) newAssets")
  case None
  then show ?thesis by (simp add: process_order_def spec_executes_no_asset)
next
  case (Some asset)
  obtain np ex where s: "settle asset order (newPortfolio st) = (np, ex)"
    by (cases "settle asset order (newPortfolio st)")
  have e: "spec_executes newAssets order = ex"
    using spec_executes_settle[OF Some, of "newPortfolio st"] s by simp
  have t: "transactions np = transactions (newPortfolio st)"
    using settle_frame(1)[of asset order "newPortfolio st"] s by simp
  have n: "\<not> ex \<Longrightarrow> np = newPortfolio st"
    using settle_not_executed[of asset order "newPortfolio st"] s by simp
  show ?thesis
    using Some s e t n find_id[OF Some]
    by (cases ex) (simp_all add: process_order_def tx_summary_def fill_of_def)
qed

lemma process_order_openOrders:
  "openOrders (newPortfolio (process_order newAssets gen now order st))
     = openOrders (newPortfolio st)"
proof (cases "find (\<lambda>a. a_id a = lo_assetId order) newAssets")
  case None
  then show ?thesis by (simp add: process_order_def)
next
  case (Some asset)
  obtain np ex where s: "settle asset order (newPortfolio st) = (np, ex)"
    by (cases "settle asset order (newPortfolio st)")
  have t: "openOrders np = openOrders (newPortfolio st)"
    using settle_frame(2)[of asset order "newPortfolio st"] s by simp
  show ?thesis using Some s t by (simp add: process_order_def)
qed

lemma match_orders_remaining:
  "remainingOrders (match_orders newAssets gen now orders st)
     = remainingOrders st @ filter (\<lambda>order. \<not> spec_executes newAssets order) orders"
  by (induction orders arbitrary: st) (simp_all add: process_order_remaining)

lemma match_orders_changed:
  "portfolioChanged (match_orders newAssets gen now orders st)
     = (portfolioChanged st \<or> (\<exists>order \<in> set orders. spec_executes newAssets order))"
  by (induction orders arbitrary: st) (auto simp: process_order_changed)

lemma match_orders_openOrders:
  "openOrders (newPortfolio (match_orders newAssets gen now orders st))
     = openOrders (newPortfolio st)"
  by (induction orders arbitrary: st) (simp_all add: process_order_openOrders)

lemma match_orders_unchanged:
  "\<forall>order \<in> set orders. \<not> spec_executes newAssets order \<Longrightarrow>
   newPortfolio (match_orders newAssets gen now orders st) = newPortfolio st
   \<and> notifications (match_orders newAssets gen now orders st) = notifications st"
  by (induction orders arbitrary: st) (simp_all add: process_order_unchanged)

lemma match_orders_transactions:
  "\<exists>ts. transactions (newPortfolio (match_orders newAssets gen now orders st))
          = transactions (newPortfolio st) @ ts
      \<and> map tx_summary ts = map fill_of (filter (spec_executes newAssets) orders)"
proof (induction orders arbitrary: st)
  case Nil
  then show ?case by simp
next
  case (Cons order orders)
  let ?st1 = "process_order newAssets gen now order st"
  obtain ts1 where 1: "transactions (newPortfolio ?st1) = transactions (newPortfolio st) @ ts1"
      "map tx_summary ts1 = (if spec_executes newAssets order then [fill_of order] else [])"
    using process_order_transactions by blast
  obtain ts2 where 2: "transactions (newPortfolio (match_orders newAssets gen now orders ?st1))
         = transactions (newPortfolio ?st1) @ ts2"
      "map tx_summary ts2 = map fill_of (filter (spec_executes newAssets) orders)"
    using Cons.IH by blast
  have "transactions (newPortfolio (match_orders newAssets gen now (order # orders) st))
          = transactions (newPortfolio st) @ (ts1 @ ts2)"
    using 1 2 by simp
  moreover have "map tx_summary (ts1 @ ts2)
      = map fill_of (filter (spec_executes newAssets) (order # orders))"
    using 1 2 by simp
  ultimately show ?case by blast
qed

lemma tick_assets: "tr_assets (simulation_tick user now rnd gen prevAssets p) = advance now rnd prevAssets"
  by (simp add: simulation_tick_def Let_def split: option.splits)

lemma tick_no_fill:
  assumes "user = None \<or> openOrders p = []
           \<or> (\<forall>order \<in> set (openOrders p). \<not> spec_executes (advance now rnd prevAssets) order)"
  shows "tr_commit (simulation_tick user now rnd gen prevAssets p) = None"
    and "tr_notifications (simulation_tick user now rnd gen prevAssets p) = []"
proof -
  let ?na = "advance now rnd prevAssets"
  let ?st0 = "\<lparr>newPortfolio = json_copy p, remainingOrders = [],
                portfolioChanged = False, notifications = [], idCount = 0\<rparr>"
  have *: "\<forall>order \<in> set (openOrders p). \<not> spec_executes ?na order \<Longrightarrow>
        \<not> portfolioChanged (match_orders ?na gen now (openOrders p) ?st0)
        \<and> notifications (match_orders ?na gen now (openOrders p) ?st0) = []"
    using match_orders_unchanged[of "openOrders p" ?na gen now ?st0]
    by (simp add: match_orders_changed)
  show "tr_commit (simulation_tick user now rnd gen prevAssets p) = None"
    using assms * by (auto simp: simulation_tick_def Let_def json_copy_fields split: option.splits)
  show "tr_notifications (simulation_tick user now rnd gen prevAssets p) = []"
    using assms * by (auto simp: simulation_tick_def Let_def json_copy_fields split: option.splits)
qed

lemma tick_fill:
  assumes "user = Some uid"
    and "\<exists>order \<in> set (openOrders p). spec_executes (advance now rnd prevAssets) order"
  shows "tr_commit (simulation_tick user now rnd gen prevAssets p)
     = Some (uid, (newPortfolio (match_orders (advance now rnd prevAssets) gen now (openOrders p)
                \<lparr>newPortfolio = json_copy p, remainingOrders = [],
                portfolioChanged = False, notifications = [], idCount = 0\<rparr>))
          \<lparr>openOrders := filter (\<lambda>order. \<not> spec_executes (advance now rnd prevAssets) order) (openOrders p)\<rparr>)"
proof -
  from assms(2) have ne: "openOrders p \<noteq> []" by auto
  show ?thesis
    using assms ne
    by (simp add: simulation_tick_def Let_def json_copy_fields match_orders_changed
        match_orders_remaining)
qed

text \<open>Claim C10. A tick with no authenticated user, or with no open order, or in which no open order satisfies the execution rule, calls neither \<open>setPortfolio\<close> nor \<open>updatePortfolio\<close>: the portfolio is the same afterwards, nothing is notified, and the assets are the advanced ones.\<close>

theorem no_fill_leaves_portfolio:
  assumes "user = None \<or> openOrders p = []
           \<or> (\<forall>order \<in> set (openOrders p). \<not> spec_executes (advance now rnd prevAssets) order)"
  shows "tr_commit (simulation_tick user now rnd gen prevAssets p) = None
       \<and> portfolio_after p (simulation_tick user now rnd gen prevAssets p) = p
       \<and> tr_notifications (simulation_tick user now rnd gen prevAssets p) = []
       \<and> tr_assets (simulation_tick user now rnd gen prevAssets p) = advance now rnd prevAssets"
  using tick_no_fill[OF assms] by (simp add: portfolio_after_def tick_assets)

lemma tick_matching:
  assumes "user = Some uid"
  shows "tr_assets (simulation_tick user now rnd gen prevAssets p) = advance now rnd prevAssets
     \<and> openOrders (portfolio_after p (simulation_tick user now rnd gen prevAssets p))
         = filter (\<lambda>order. \<not> spec_executes (advance now rnd prevAssets) order) (openOrders p)
     \<and> (\<exists>ts. transactions (portfolio_after p (simulation_tick user now rnd gen prevAssets p))
               = transactions p @ ts
            \<and> map tx_summary ts
               = map fill_of (filter (spec_executes (advance now rnd prevAssets)) (openOrders p)))
     \<and> (\<forall>order \<in> set (openOrders p).
           find (\<lambda>a. a_id a = lo_assetId order) (advance now rnd prevAssets) = None
           \<longrightarrow> order \<in> set (openOrders (portfolio_after p (simulation_tick user now rnd gen prevAssets p))))"
proof -
  let ?na = "advance now rnd prevAssets"
  let ?r = "simulation_tick user now rnd gen prevAssets p"
  let ?st0 = "\<lparr>newPortfolio = json_copy p, remainingOrders = [],
                portfolioChanged = False, notifications = [], idCount = 0\<rparr>"
  have oo: "openOrders (portfolio_after p ?r) = filter (\<lambda>order. \<not> spec_executes ?na order) (openOrders p)"
   and tx: "\<exists>ts. transactions (portfolio_after p ?r) = transactions p @ ts
            \<and> map tx_summary ts = map fill_of (filter (spec_executes ?na) (openOrders p))"
  proof -
    show "openOrders (portfolio_after p ?r) = filter (\<lambda>order. \<not> spec_executes ?na order) (openOrders p)"
    proof (cases "\<exists>order \<in> set (openOrders p). spec_executes ?na order")
      case True
      then show ?thesis using tick_fill[OF assms True] by (simp add: portfolio_after_def)
    next
      case False
      then have all: "\<forall>order \<in> set (openOrders p). \<not> spec_executes ?na order" by blast
      then have "tr_commit ?r = None" using tick_no_fill(1) by blast
      moreover have "filter (\<lambda>order. \<not> spec_executes ?na order) (openOrders p) = openOrders p"
        using all by simp
      ultimately show ?thesis by (simp add: portfolio_after_def)
    qed
    show "\<exists>ts. transactions (portfolio_after p ?r) = transactions p @ ts
            \<and> map tx_summary ts = map fill_of (filter (spec_executes ?na) (openOrders p))"
    proof (cases "\<exists>order \<in> set (openOrders p). spec_executes ?na order")
      case True
      show ?thesis
        using tick_fill[OF assms True, of gen]
          match_orders_transactions[of ?na gen now "openOrders p" ?st0]
        by (simp add: portfolio_after_def json_copy_fields)
    next
      case False
      then have all: "\<forall>order \<in> set (openOrders p). \<not> spec_executes ?na order" by blast
      then have "tr_commit ?r = None" using tick_no_fill(1) by blast
      moreover have "filter (spec_executes ?na) (openOrders p) = []"
        using all by simp
      ultimately show ?thesis by (simp add: portfolio_after_def)
    qed
  qed
  have na: "\<forall>order \<in> set (openOrders p).
           find (\<lambda>a. a_id a = lo_assetId order) ?na = None
           \<longrightarrow> order \<in> set (openOrders (portfolio_after p ?r))"
    unfolding oo by (simp add: spec_executes_no_asset)
  show ?thesis using oo tx na tick_assets by blast
qed

text \<open>Claim C1. The matching loop, run over any list of orders against the prices the tick has just computed, keeps as remaining exactly the orders that do not satisfy the execution rule (BUY: price at most the target; SELL: price at least the target; no such asset: never), in their order; the transactions appended are exactly one per order that satisfies it, in order, each for the order's side, asset, full quantity and target price, of kind LIMIT; With an authenticated user the same holds of the tick as a whole: these are the open orders and the new transactions of the portfolio afterwards, and an order whose asset does not exist stays open.\<close>

theorem limit_orders_execute_iff:
  "remainingOrders (match_orders newAssets gen now orders st)
     = remainingOrders st @ filter (\<lambda>order. \<not> spec_executes newAssets order) orders
   \<and> (\<exists>ts. transactions (newPortfolio (match_orders newAssets gen now orders st))
             = transactions (newPortfolio st) @ ts
          \<and> map tx_summary ts = map fill_of (filter (spec_executes newAssets) orders))
   \<and> (user = Some uid \<longrightarrow>
         tr_assets (simulation_tick user now rnd gen prevAssets p) = advance now rnd prevAssets
       \<and> openOrders (portfolio_after p (simulation_tick user now rnd gen prevAssets p))
           = filter (\<lambda>order. \<not> spec_executes (advance now rnd prevAssets) order) (openOrders p)
       \<and> (\<exists>ts. transactions (portfolio_after p (simulation_tick user now rnd gen prevAssets p))
                 = transactions p @ ts
              \<and> map tx_summary ts
                 = map fill_of (filter (spec_executes (advance now rnd prevAssets)) (openOrders p)))
       \<and> (\<forall>order \<in> set (openOrders p).
             find (\<lambda>a. a_id a = lo_assetId order) (advance now rnd prevAssets) = None
             \<longrightarrow> order \<in> set (openOrders (portfolio_after p (simulation_tick user now rnd gen prevAssets p)))))"
  using match_orders_remaining[of newAssets gen now orders st]
    match_orders_transactions[of newAssets gen now orders st]
    tick_matching[of user uid now rnd gen prevAssets p]
  by blast

section \<open>Settlement of a fill\<close>

lemma hod_json_quantity:
  "quantity (holding_or_default (holdings (json_copy p)) k) = quantity (holding_or_default (holdings p) k)"
  by (simp add: holding_or_default_def json_copy_def json_holding_def split: option.splits)

lemma hod_json_avgCost:
  "avgCost (holding_or_default (holdings (json_copy p)) k) = json_num (avgCost (holding_or_default (holdings p) k))"
  by (simp add: holding_or_default_def json_copy_def json_holding_def split: option.splits)

lemma hod_upd: "holding_or_default (hs(k \<mapsto> h)) k = h"
  by (simp add: holding_or_default_def)

lemma weighted_join:
  "avgCost h = Num c \<Longrightarrow> quantity h + q \<noteq> 0 \<Longrightarrow>
   js_divide (js_plus (js_times (quantity h) (avgCost h)) cost) (quantity h + q)
     = Num ((quantity h * c + cost) / (quantity h + q))"
  by simp

text \<open>The loop body on an order that satisfies the execution rule.\<close>

lemma process_order_fill:
  assumes "spec_executes newAssets order"
  shows "remainingOrders (process_order newAssets gen now order st) = remainingOrders st
     \<and> portfolioChanged (process_order newAssets gen now order st)
     \<and> openOrders (newPortfolio (process_order newAssets gen now order st)) = openOrders (newPortfolio st)
     \<and> (\<exists>t. transactions (newPortfolio (process_order newAssets gen now order st))
               = transactions (newPortfolio st) @ [t]
            \<and> tx_orderType t = LIMIT \<and> tx_type t = lo_type order \<and> tx_assetId t = lo_assetId order
            \<and> tx_quantity t = lo_quantity order \<and> tx_price t = lo_targetPrice order)
     \<and> (lo_type order = BUY \<longrightarrow>
           cashBalance (newPortfolio (process_order newAssets gen now order st)) = cashBalance (newPortfolio st)
         \<and> (\<forall>k. k \<noteq> lo_assetId order \<longrightarrow>
               holdings (newPortfolio (process_order newAssets gen now order st)) k = holdings (newPortfolio st) k)
         \<and> quantity (holding_or_default (holdings (newPortfolio (process_order newAssets gen now order st))) (lo_assetId order))
             = quantity (holding_or_default (holdings (newPortfolio st)) (lo_assetId order)) + lo_quantity order
         \<and> (\<forall>c. avgCost (holding_or_default (holdings (newPortfolio st)) (lo_assetId order)) = Num c
                 \<and> quantity (holding_or_default (holdings (newPortfolio st)) (lo_assetId order)) + lo_quantity order \<noteq> 0
               \<longrightarrow> avgCost (holding_or_default (holdings (newPortfolio (process_order newAssets gen now order st))) (lo_assetId order))
                  = Num ((quantity (holding_or_default (holdings (newPortfolio st)) (lo_assetId order)) * c
                            + lo_quantity order * lo_targetPrice order)
                         / (quantity (holding_or_default (holdings (newPortfolio st)) (lo_assetId order)) + lo_quantity order))))
     \<and> (lo_type order = SELL \<longrightarrow>
           cashBalance (newPortfolio (process_order newAssets gen now order st))
             = cashBalance (newPortfolio st) + lo_quantity order * lo_targetPrice order
         \<and> holdings (newPortfolio (process_order newAssets gen now order st)) = holdings (newPortfolio st))
     \<and> (usr = Some uid \<and> order \<in> set (openOrders p) \<and> newAssets = advance now rnd prevAssets \<longrightarrow>
           order \<notin> set (openOrders (portfolio_after p (simulation_tick usr now rnd gen prevAssets p)))
         \<and> tr_commit (simulation_tick usr now rnd gen prevAssets p) \<noteq> None)"
proof -
  let ?st' = "process_order newAssets gen now order st"
  let ?np = "newPortfolio st"
  obtain asset where f: "find (\<lambda>a. a_id a = lo_assetId order) newAssets = Some asset"
    using assms by (auto simp: spec_executes_def split: option.splits)
  have aid: "a_id asset = lo_assetId order" using find_id[OF f] .
  have ex: "snd (settle asset order ?np)"
    using spec_executes_settle[OF f, of ?np] assms by simp
  obtain np1 where s: "settle asset order ?np = (np1, True)"
    using ex by (cases "settle asset order ?np") auto
  have st': "?st' = st\<lparr>newPortfolio := np1\<lparr>transactions := transactions np1 @
                        [\<lparr>tx_id = gen (idCount st),
                          tx_type = lo_type order,
                          tx_assetId = a_id asset,
                          tx_assetName = a_name asset,
                          tx_quantity = lo_quantity order,
                          tx_price = lo_targetPrice order,
                          tx_timestamp = now,
                          tx_orderType = LIMIT\<rparr>]\<rparr>,
                    portfolioChanged := True,
                    notifications := notifications st @
                        [\<lparr>fn_type = lo_type order, fn_quantity = lo_quantity order,
                          fn_assetName = a_name asset, fn_targetPrice = lo_targetPrice order\<rparr>],
                    idCount := idCount st + 1\<rparr>"
    using f s by (simp add: process_order_def)
  have tx1: "transactions np1 = transactions ?np" and oo1: "openOrders np1 = openOrders ?np"
    using settle_frame[of asset order ?np] s by simp_all
  have buy: "lo_type order = BUY \<Longrightarrow> np1 = ?np\<lparr>holdings := (holdings ?np)(lo_assetId order \<mapsto>
        \<lparr>quantity = quantity (holding_or_default (holdings ?np) (lo_assetId order)) + lo_quantity order,
         avgCost = js_divide (js_plus (js_times (quantity (holding_or_default (holdings ?np) (lo_assetId order)))
                                 (avgCost (holding_or_default (holdings ?np) (lo_assetId order))))
                       (lo_quantity order * lo_targetPrice order))
                     (quantity (holding_or_default (holdings ?np) (lo_assetId order)) + lo_quantity order)\<rparr>)\<rparr>"
    using s aid by (simp add: settle_def Let_def split: if_splits)
  have sell: "lo_type order = SELL \<Longrightarrow>
      np1 = ?np\<lparr>cashBalance := cashBalance ?np + lo_quantity order * lo_targetPrice order\<rparr>"
    using s by (simp add: settle_def Let_def split: if_splits)
  have 1: "remainingOrders ?st' = remainingOrders st" by (simp add: st')
  have 2: "portfolioChanged ?st'" by (simp add: st')
  have 3: "openOrders (newPortfolio ?st') = openOrders ?np" by (simp add: st' oo1)
  have 4: "\<exists>t. transactions (newPortfolio ?st') = transactions ?np @ [t]
            \<and> tx_orderType t = LIMIT \<and> tx_type t = lo_type order \<and> tx_assetId t = lo_assetId order
            \<and> tx_quantity t = lo_quantity order \<and> tx_price t = lo_targetPrice order"
    by (simp add: st' tx1 aid)
  have 5: "lo_type order = BUY \<longrightarrow>
           cashBalance (newPortfolio ?st') = cashBalance ?np
         \<and> (\<forall>k. k \<noteq> lo_assetId order \<longrightarrow> holdings (newPortfolio ?st') k = holdings ?np k)
         \<and> quantity (holding_or_default (holdings (newPortfolio ?st')) (lo_assetId order))
             = quantity (holding_or_default (holdings ?np) (lo_assetId order)) + lo_quantity order
         \<and> (\<forall>c. avgCost (holding_or_default (holdings ?np) (lo_assetId order)) = Num c
                 \<and> quantity (holding_or_default (holdings ?np) (lo_assetId order)) + lo_quantity order \<noteq> 0
               \<longrightarrow> avgCost (holding_or_default (holdings (newPortfolio ?st')) (lo_assetId order))
                  = Num ((quantity (holding_or_default (holdings ?np) (lo_assetId order)) * c
                            + lo_quantity order * lo_targetPrice order)
                         / (quantity (holding_or_default (holdings ?np) (lo_assetId order)) + lo_quantity order)))"
  proof
    assume b: "lo_type order = BUY"
    show "cashBalance (newPortfolio ?st') = cashBalance ?np
         \<and> (\<forall>k. k \<noteq> lo_assetId order \<longrightarrow> holdings (newPortfolio ?st') k = holdings ?np k)
         \<and> quantity (holding_or_default (holdings (newPortfolio ?st')) (lo_assetId order))
             = quantity (holding_or_default (holdings ?np) (lo_assetId order)) + lo_quantity order
         \<and> (\<forall>c. avgCost (holding_or_default (holdings ?np) (lo_assetId order)) = Num c
                 \<and> quantity (holding_or_default (holdings ?np) (lo_assetId order)) + lo_quantity order \<noteq> 0
               \<longrightarrow> avgCost (holding_or_default (holdings (newPortfolio ?st')) (lo_assetId order))
                  = Num ((quantity (holding_or_default (holdings ?np) (lo_assetId order)) * c
                            + lo_quantity order * lo_targetPrice order)
                         / (quantity (holding_or_default (holdings ?np) (lo_assetId order)) + lo_quantity order)))"
      unfolding st' buy[OF b] by (simp add: hod_upd)
  qed
  have 6: "lo_type order = SELL \<longrightarrow>
           cashBalance (newPortfolio ?st') = cashBalance ?np + lo_quantity order * lo_targetPrice order
         \<and> holdings (newPortfolio ?st') = holdings ?np"
  proof
    assume b: "lo_type order = SELL"
    show "cashBalance (newPortfolio ?st') = cashBalance ?np + lo_quantity order * lo_targetPrice order
         \<and> holdings (newPortfolio ?st') = holdings ?np"
      unfolding st' sell[OF b] by simp
  qed
  have 7: "usr = Some uid \<and> order \<in> set (openOrders p) \<and> newAssets = advance now rnd prevAssets \<longrightarrow>
           order \<notin> set (openOrders (portfolio_after p (simulation_tick usr now rnd gen prevAssets p)))
         \<and> tr_commit (simulation_tick usr now rnd gen prevAssets p) \<noteq> None"
  proof
    assume a: "usr = Some uid \<and> order \<in> set (openOrders p) \<and> newAssets = advance now rnd prevAssets"
    then have e: "\<exists>order \<in> set (openOrders p). spec_executes (advance now rnd prevAssets) order"
      using assms by blast
    have u: "usr = Some uid" using a by simp
    show "order \<notin> set (openOrders (portfolio_after p (simulation_tick usr now rnd gen prevAssets p)))
         \<and> tr_commit (simulation_tick usr now rnd gen prevAssets p) \<noteq> None"
      using tick_fill[OF u e, of gen] a assms by (simp add: portfolio_after_def)
  qed
  show ?thesis using 1 2 3 4 5 6 7 by blast
qed

lemma demo_advance:
  "advance 1 (\<lambda>n. 1 / 2) [demo_asset] =
     [demo_asset\<lparr>current_price := 10,
        history := [\<lparr>time = 1, price = 10, volume = 1100\<rparr>], change24h := Num 0\<rparr>]"
  by (simp add: advance_def tick_asset_def demo_asset_def newPrice_def volatility_def Let_def
      newHistoryPoint_def)

lemma demo_executes:
  "spec_executes (advance 1 (\<lambda>n. 1 / 2) [demo_asset]) demo_buy_order"
  "\<not> spec_executes (advance 1 (\<lambda>n. 1 / 2) [demo_asset]) demo_sell_order"
  unfolding demo_advance
  by (simp_all add: spec_executes_def demo_asset_def demo_buy_order_def demo_sell_order_def)

text \<open>C1 at a book with a BUY at 12 and a SELL at 12 while the price is 10: the BUY fills, the SELL stays.\<close>

theorem limit_orders_execute_iff_witness:
  "remainingOrders (match_orders [demo_asset] (\<lambda>n. ''t'') 1 [demo_buy_order, demo_sell_order]
       demo_match_state) = [demo_sell_order]
   \<and> openOrders (portfolio_after demo_portfolio
       (simulation_tick (Some ''u'') 1 (\<lambda>n. 1 / 2) (\<lambda>n. ''t'') [demo_asset] demo_portfolio))
     = [demo_sell_order]
   \<and> (\<exists>ts. transactions (portfolio_after demo_portfolio
       (simulation_tick (Some ''u'') 1 (\<lambda>n. 1 / 2) (\<lambda>n. ''t'') [demo_asset] demo_portfolio)) = ts
          \<and> map tx_summary ts = [(BUY, ''TOM'', 5, 12, LIMIT)])"
proof -
  note t = limit_orders_execute_iff[where user = "Some ''u''" and uid = "''u''" and now = 1
      and rnd = "\<lambda>n. 1 / 2" and gen = "\<lambda>n. ''t''" and prevAssets = "[demo_asset]"
      and p = demo_portfolio and orders = "[demo_buy_order, demo_sell_order]"
      and newAssets = "[demo_asset]" and st = demo_match_state]
  have oo: "openOrders demo_portfolio = [demo_buy_order, demo_sell_order]"
    by (simp add: demo_portfolio_def)
  have tx: "transactions demo_portfolio = []"
    by (simp add: demo_portfolio_def DEFAULT_PORTFOLIO_DATA_def)
  have f: "fill_of demo_buy_order = (BUY, ''TOM'', 5, 12, LIMIT)"
    by (simp add: fill_of_def demo_buy_order_def)
  have e: "spec_executes [demo_asset] demo_buy_order" "\<not> spec_executes [demo_asset] demo_sell_order"
    by (simp_all add: spec_executes_def demo_asset_def demo_buy_order_def demo_sell_order_def)
  have r: "remainingOrders demo_match_state = []"
    by (simp add: demo_match_state_def)
  from t show ?thesis
    by (simp add: oo tx demo_executes f e r)
qed

text \<open>C10 at a book with one SELL at 12 while the price is 10.\<close>

theorem no_fill_leaves_portfolio_witness:
  "tr_commit (simulation_tick (Some ''u'') 1 (\<lambda>n. 1 / 2) (\<lambda>n. ''t'') [demo_asset] demo_resting) = None
   \<and> portfolio_after demo_resting
       (simulation_tick (Some ''u'') 1 (\<lambda>n. 1 / 2) (\<lambda>n. ''t'') [demo_asset] demo_resting) = demo_resting"
proof -
  have h: "Some ''u'' = None \<or> openOrders demo_resting = []
           \<or> (\<forall>order \<in> set (openOrders demo_resting).
                 \<not> spec_executes (advance 1 (\<lambda>n. 1 / 2) [demo_asset]) order)"
    by (simp add: demo_resting_def demo_executes)
  from no_fill_leaves_portfolio[OF h] show ?thesis by blast
qed

section \<open>Trade requests: properties\<close>

lemma commit_simps [simp]: "commit p (Inl e) = p" "commit p (Inr np) = np"
  by (simp_all add: commit_def)

lemma handleTrade_buy_rejected:
  assumes "usr = Some uid" and "find (\<lambda>a. a_id a = sel) as = Some asset"
    and "cashBalance p < qty * request_price asset kind lp"
  shows "handleTrade usr as sel p newId now BUY qty kind lp = Inl InsufficientFunds"
  using assms
  by (simp add: handleTrade_def Let_def request_price_def json_copy_fields mult.commute)

lemma handleTrade_buy_accepted:
  assumes "usr = Some uid" and "find (\<lambda>a. a_id a = sel) as = Some asset"
    and "\<not> cashBalance p < qty * request_price asset kind lp"
  shows "\<exists>np. handleTrade usr as sel p newId now BUY qty kind lp = Inr np
            \<and> cashBalance np = cashBalance p - qty * request_price asset kind lp"
  using assms
  by (cases kind)
     (simp_all add: handleTrade_def Let_def request_price_def json_copy_fields mult.commute)



lemma handleSubmit_invalid_quantity:
  "numericQty \<le> 0 \<Longrightarrow> handleSubmit asset p mode kind numericQty numericLimitPrice = Inl InvalidQuantity"
  by (simp add: handleSubmit_def Let_def)

lemma handleSubmit_invalid_price:
  "0 < numericQty \<Longrightarrow> numericLimitPrice \<le> 0 \<Longrightarrow>
   handleSubmit asset p mode LIMIT numericQty numericLimitPrice = Inl InvalidPrice"
  by (simp add: handleSubmit_def Let_def)

text \<open>Claim C7. A trade request whose quantity is not positive is rejected with \<open>InvalidQuantity\<close>; a limit order request with a positive quantity whose limit price is not positive is rejected with \<open>InvalidPrice\<close>; every limit order request whose limit price is not positive is rejected with one of the two. In each case \<open>handleTrade\<close> is not reached and the portfolio is unchanged.\<close>

theorem invalid_requests_rejected:
  "(numericQty \<le> 0 \<longrightarrow>
      trade_request usr as sel p asset newId now mode kind numericQty numericLimitPrice = Inl InvalidQuantity
    \<and> commit p (trade_request usr as sel p asset newId now mode kind numericQty numericLimitPrice) = p)
   \<and> (0 < numericQty \<and> numericLimitPrice \<le> 0 \<longrightarrow>
      trade_request usr as sel p asset newId now mode LIMIT numericQty numericLimitPrice = Inl InvalidPrice
    \<and> commit p (trade_request usr as sel p asset newId now mode LIMIT numericQty numericLimitPrice) = p)
   \<and> (numericLimitPrice \<le> 0 \<longrightarrow>
      (trade_request usr as sel p asset newId now mode LIMIT numericQty numericLimitPrice = Inl InvalidQuantity
       \<or> trade_request usr as sel p asset newId now mode LIMIT numericQty numericLimitPrice = Inl InvalidPrice)
    \<and> commit p (trade_request usr as sel p asset newId now mode LIMIT numericQty numericLimitPrice) = p)"
proof -
  have 1: "numericQty \<le> 0 \<Longrightarrow>
      trade_request usr as sel p asset newId now mode k numericQty numericLimitPrice = Inl InvalidQuantity" for k
    by (simp add: trade_request_def handleSubmit_invalid_quantity)
  have 2: "0 < numericQty \<Longrightarrow> numericLimitPrice \<le> 0 \<Longrightarrow>
      trade_request usr as sel p asset newId now mode LIMIT numericQty numericLimitPrice = Inl InvalidPrice"
    by (simp add: trade_request_def handleSubmit_invalid_price)
  have 3: "numericLimitPrice \<le> 0 \<Longrightarrow>
      trade_request usr as sel p asset newId now mode LIMIT numericQty numericLimitPrice = Inl InvalidQuantity
       \<or> trade_request usr as sel p asset newId now mode LIMIT numericQty numericLimitPrice = Inl InvalidPrice"
    using 1[of LIMIT] 2 by (cases "numericQty \<le> 0") auto
  show ?thesis using 1 2 3 by (auto simp: commit_def)
qed

section \<open>Placing and cancelling a limit order\<close>

lemma findIndex_fresh:
  "\<forall>y \<in> set xs. \<not> P y \<Longrightarrow> P x \<Longrightarrow> findIndex P (xs @ [x]) = Some (length xs)"
  by (induction xs) simp_all

section \<open>Cash is never negative\<close>

lemma find_mem: "find P xs = Some x \<Longrightarrow> x \<in> set xs"
  by (induction xs) (auto split: if_splits)

lemma newPrice_nonneg: "0 \<le> newPrice r a"
  using newPrice_floor[of r a] by simp

lemma advance_from_prices: "a \<in> set (advance_from k now rnd as) \<Longrightarrow> 0 \<le> current_price a"
  by (induction as arbitrary: k) (auto simp: tick_asset_fields newPrice_nonneg)

lemma advance_prices_nonneg: "prices_nonneg (advance now rnd as)"
  unfolding prices_nonneg_def advance_def using advance_from_prices by blast

lemma settle_cash:
  "0 \<le> lo_quantity order * lo_targetPrice order \<Longrightarrow>
   cashBalance np \<le> cashBalance (fst (settle asset order np))"
  by (simp add: settle_def Let_def)

lemma process_order_cash:
  assumes "0 \<le> lo_quantity order * lo_targetPrice order"
  shows "cashBalance (newPortfolio st) \<le> cashBalance (newPortfolio (process_order newAssets gen now order st))"
proof (cases "find (\<lambda>a. a_id a = lo_assetId order) newAssets")
  case None
  then show ?thesis by (simp add: process_order_def)
next
  case (Some asset)
  obtain np ex where s: "settle asset order (newPortfolio st) = (np, ex)"
    by (cases "settle asset order (newPortfolio st)")
  have "cashBalance (newPortfolio st) \<le> cashBalance np"
    using settle_cash[OF assms, of "newPortfolio st" asset] s by simp
  then show ?thesis using Some s by (simp add: process_order_def)
qed

lemma match_orders_cash:
  "\<forall>order \<in> set orders. 0 \<le> lo_quantity order * lo_targetPrice order \<Longrightarrow>
   cashBalance (newPortfolio st) \<le> cashBalance (newPortfolio (match_orders newAssets gen now orders st))"
proof (induction orders arbitrary: st)
  case Nil
  then show ?case by simp
next
  case (Cons order orders)
  have "cashBalance (newPortfolio st)
      \<le> cashBalance (newPortfolio (process_order newAssets gen now order st))"
    using Cons.prems by (simp add: process_order_cash)
  also have "\<dots> \<le> cashBalance (newPortfolio (match_orders newAssets gen now orders
        (process_order newAssets gen now order st)))"
    using Cons.IH Cons.prems by simp
  finally show ?case by simp
qed

lemma tick_preserves:
  assumes "0 \<le> cashBalance p" and "escrow_nonneg p"
  shows "0 \<le> cashBalance (portfolio_after p (simulation_tick usr now rnd gen prevAssets p))"
    and "escrow_nonneg (portfolio_after p (simulation_tick usr now rnd gen prevAssets p))"
proof -
  let ?r = "simulation_tick usr now rnd gen prevAssets p"
  let ?na = "advance now rnd prevAssets"
  let ?st0 = "\<lparr>newPortfolio = json_copy p, remainingOrders = [],
                portfolioChanged = False, notifications = [], idCount = 0\<rparr>"
  have both: "0 \<le> cashBalance (portfolio_after p ?r) \<and> escrow_nonneg (portfolio_after p ?r)"
  proof (cases "tr_commit ?r")
    case None
    then show ?thesis using assms by (simp add: portfolio_after_def)
  next
    case (Some c)
    then obtain uid where u: "usr = Some uid"
      by (cases usr) (simp_all add: simulation_tick_def Let_def)
    have e: "\<exists>order \<in> set (openOrders p). spec_executes ?na order"
      using Some tick_no_fill(1)[of usr p now rnd prevAssets gen] by auto
    have pa: "portfolio_after p ?r = (newPortfolio (match_orders ?na gen now (openOrders p) ?st0))
          \<lparr>openOrders := filter (\<lambda>order. \<not> spec_executes ?na order) (openOrders p)\<rparr>"
      using tick_fill[OF u e, of gen] by (simp add: portfolio_after_def)
    have "cashBalance p \<le> cashBalance (newPortfolio (match_orders ?na gen now (openOrders p) ?st0))"
      using match_orders_cash[of "openOrders p" ?st0 ?na gen now] assms(2)
      by (simp add: escrow_nonneg_def json_copy_fields)
    then have 1: "0 \<le> cashBalance (portfolio_after p ?r)" using assms(1) pa by simp
    have 2: "escrow_nonneg (portfolio_after p ?r)"
      using assms(2) pa by (simp add: escrow_nonneg_def)
    show ?thesis using 1 2 by simp
  qed
  show "0 \<le> cashBalance (portfolio_after p ?r)" using both by simp
  show "escrow_nonneg (portfolio_after p ?r)" using both by simp
qed

lemma handleTrade_preserves:
  assumes "handleTrade usr as sel p newId now ty qty kind lp = Inr np"
    and "0 \<le> qty" and "kind = LIMIT \<longrightarrow> (\<exists>l. lp = Some l \<and> 0 \<le> l)"
    and "prices_nonneg as" and "0 \<le> cashBalance p" and "escrow_nonneg p"
  shows "0 \<le> cashBalance np \<and> escrow_nonneg np"
proof -
  obtain uid where u: "usr = Some uid"
    using assms(1) by (cases usr) (simp_all add: handleTrade_def)
  obtain asset where f: "find (\<lambda>a. a_id a = sel) as = Some asset"
    using assms(1) u by (cases "find (\<lambda>a. a_id a = sel) as") (simp_all add: handleTrade_def)
  have pr: "0 \<le> request_price asset kind lp"
    using assms(3,4) find_mem[OF f] by (auto simp: request_price_def prices_nonneg_def)
  then have cost: "0 \<le> qty * request_price asset kind lp" using assms(2) by simp
  show ?thesis
  proof (cases ty)
    case BUY
    have nr: "\<not> cashBalance p < qty * request_price asset kind lp"
      using handleTrade_buy_rejected[OF u f, of p qty kind lp newId now] assms(1) BUY by auto
    from handleTrade_buy_accepted[OF u f nr, of newId now] assms(1) BUY
    have c: "cashBalance np = cashBalance p - qty * request_price asset kind lp" by auto
    have e: "escrow_nonneg np"
      using assms(1,6) u f BUY cost nr
      by (cases kind)
         (auto simp: handleTrade_def Let_def request_price_def json_copy_fields escrow_nonneg_def
            mult.commute split: if_splits)
    show ?thesis using c nr e by simp
  next
    case SELL
    have c: "cashBalance p \<le> cashBalance np"
      using assms(1) u f SELL cost
      by (cases kind)
         (auto simp: handleTrade_def Let_def request_price_def json_copy_fields mult.commute
            split: if_splits)
    have e: "escrow_nonneg np"
      using assms(1,6) u f SELL cost
      by (cases kind)
         (auto simp: handleTrade_def Let_def request_price_def json_copy_fields escrow_nonneg_def
            mult.commute split: if_splits)
    show ?thesis using c e assms(5) by simp
  qed
qed

lemma trade_request_preserves:
  assumes "prices_nonneg as" and "0 \<le> cashBalance p" and "escrow_nonneg p"
  shows "0 \<le> cashBalance (commit p (trade_request usr as sel p asset newId now mode kind nq nlp))
       \<and> escrow_nonneg (commit p (trade_request usr as sel p asset newId now mode kind nq nlp))"
proof (cases "handleSubmit asset p mode kind nq nlp")
  case (Inl e)
  then show ?thesis using assms by (simp add: trade_request_def)
next
  case (Inr args)
  then have a: "args = (mode, real_of_int nq, kind, if kind = LIMIT then Some nlp else None)"
    and q: "0 < nq" and l: "kind = LIMIT \<longrightarrow> 0 < nlp"
    by (auto simp: handleSubmit_def Let_def split: if_splits)
  have tr: "trade_request usr as sel p asset newId now mode kind nq nlp
      = handleTrade usr as sel p newId now mode (real_of_int nq) kind (if kind = LIMIT then Some nlp else None)"
    using Inr a by (simp add: trade_request_def)
  show ?thesis
  proof (cases "handleTrade usr as sel p newId now mode (real_of_int nq) kind (if kind = LIMIT then Some nlp else None)")
    case (Inl e)
    then show ?thesis using assms tr by simp
  next
    case (Inr np)
    have "0 \<le> cashBalance np \<and> escrow_nonneg np"
      using handleTrade_preserves[OF Inr _ _ assms] q l by auto
    then show ?thesis using tr Inr by simp
  qed
qed

lemma findIndex_Some: "findIndex P xs = Some i \<Longrightarrow> i < length xs \<and> P (xs ! i)"
proof (induction xs arbitrary: i)
  case Nil
  then show ?case by simp
next
  case (Cons x xs)
  then show ?case by (cases i) (auto split: if_splits)
qed

lemma cancel_preserves:
  assumes "0 \<le> cashBalance p" and "escrow_nonneg p"
  shows "0 \<le> cashBalance (commit p (handleCancelOrder usr p orderId))
       \<and> escrow_nonneg (commit p (handleCancelOrder usr p orderId))"
proof (cases "handleCancelOrder usr p orderId")
  case (Inl e)
  then show ?thesis using assms by simp
next
  case (Inr np)
  then obtain uid where u: "usr = Some uid"
    by (cases usr) (simp_all add: handleCancelOrder_def)
  obtain i where fi: "findIndex (\<lambda>x. lo_id x = orderId) (openOrders p) = Some i"
    using Inr u
    by (cases "findIndex (\<lambda>x. lo_id x = orderId) (openOrders p)")
       (simp_all add: handleCancelOrder_def Let_def json_copy_fields)
  have i: "i < length (openOrders p)" using findIndex_Some[OF fi] by simp
  then have mem: "openOrders p ! i \<in> set (openOrders p)" by simp
  then have v: "0 \<le> lo_quantity (openOrders p ! i) * lo_targetPrice (openOrders p ! i)"
    using assms(2) by (simp add: escrow_nonneg_def)
  have oo: "openOrders np = take i (openOrders p) @ drop (Suc i) (openOrders p)"
    and c: "cashBalance p \<le> cashBalance np"
    using Inr u fi v
    by (auto simp: handleCancelOrder_def Let_def json_copy_fields split: if_splits)
  have "set (openOrders np) \<subseteq> set (openOrders p)"
    unfolding oo using set_take_subset[of i "openOrders p"] set_drop_subset[of "Suc i" "openOrders p"]
    by auto
  then have "escrow_nonneg np" using assms(2) by (auto simp: escrow_nonneg_def)
  then show ?thesis using c assms(1) Inr by simp
qed

lemma app_step_preserves: "ledger_ok st \<Longrightarrow> ledger_ok (app_step st ev)"
proof (cases ev)
  case (Tick now rnd gen)
  assume "ledger_ok st"
  then show ?thesis
    using Tick tick_preserves[of "st_portfolio st" "st_user st" now rnd gen "st_assets st"]
    by (simp add: ledger_ok_def Let_def tick_assets advance_prices_nonneg)
next
  case (Submit mode kind nq nlp newId now)
  assume ok: "ledger_ok st"
  show ?thesis
  proof (cases "selectedAsset (st_assets st) (st_selectedAssetId st)")
    case None
    then show ?thesis using ok Submit by simp
  next
    case (Some asset)
    then show ?thesis
      using ok Submit
        trade_request_preserves[of "st_assets st" "st_portfolio st" "st_user st"
          "st_selectedAssetId st" asset newId now mode kind nq nlp]
      by (simp add: ledger_ok_def)
  qed
next
  case (CancelOrder orderId)
  assume "ledger_ok st"
  then show ?thesis
    using CancelOrder cancel_preserves[of "st_portfolio st" "st_user st" orderId]
    by (simp add: ledger_ok_def)
next
  case (SelectAsset sel)
  assume "ledger_ok st"
  then show ?thesis using SelectAsset by (simp add: ledger_ok_def)
qed

lemma run_events_preserves: "ledger_ok st \<Longrightarrow> ledger_ok (run_events st evs)"
  by (induction evs arbitrary: st) (simp_all add: app_step_preserves)

text \<open>Claim C6. From a state whose cash is not negative, whose open orders all have a non-negative escrow value \<open>quantity * targetPrice\<close> and whose asset prices are not negative, no sequence of ticks, trade requests, cancellations and asset selections makes the cash negative.\<close>

theorem cash_never_negative:
  assumes "0 \<le> cashBalance (st_portfolio st)"
    and "escrow_nonneg (st_portfolio st)"
    and "prices_nonneg (st_assets st)"
  shows "0 \<le> cashBalance (st_portfolio (run_events st evs))"
  using run_events_preserves[of st evs] assms by (simp add: ledger_ok_def)

section \<open>Examples of the request handlers\<close>

lemma demo_find: "find (\<lambda>a. a_id a = ''TOM'') [demo_asset] = Some demo_asset"
  "find (\<lambda>a. a_id a = ''TOM'') [demo_asset20] = Some demo_asset20"
  by (simp_all add: demo_asset_def demo_asset20_def)

lemma demo_default:
  "cashBalance DEFAULT_PORTFOLIO_DATA = 10000"
  "holding_or_default (holdings DEFAULT_PORTFOLIO_DATA) ''TOM'' = \<lparr>quantity = 0, avgCost = Num 0\<rparr>"
  "openOrders DEFAULT_PORTFOLIO_DATA = []"
  "transactions DEFAULT_PORTFOLIO_DATA = []"
  by (simp_all add: DEFAULT_PORTFOLIO_DATA_def INITIAL_CASH_def holding_or_default_def)

lemma demo_prices: "current_price demo_asset = 10" "current_price demo_asset20 = 20"
  by (simp_all add: demo_asset_def demo_asset20_def)

text \<open>C6 from the initial state of the application, over a placement, a tick, a market sale and a cancellation.\<close>

theorem cash_never_negative_witness:
  "0 \<le> cashBalance (st_portfolio (run_events (initial_state (Some ''u'') 0 (\<lambda>n. 0)) demo_events))"
proof -
  have 1: "0 \<le> cashBalance (st_portfolio (initial_state (Some ''u'') 0 (\<lambda>n. 0)))"
    by (simp add: initial_state_def demo_default)
  have 2: "escrow_nonneg (st_portfolio (initial_state (Some ''u'') 0 (\<lambda>n. 0)))"
    by (simp add: initial_state_def escrow_nonneg_def demo_default)
  have 3: "prices_nonneg (st_assets (initial_state (Some ''u'') 0 (\<lambda>n. 0)))"
    by (simp add: initial_state_def prices_nonneg_def initial_assets_def INITIAL_ASSETS_def)
  show ?thesis by (rule cash_never_negative[OF 1 2 3])
qed

text \<open>C7 at a request for 0 units and at a limit order at price 0.\<close>

theorem invalid_requests_rejected_witness:
  "trade_request (Some ''u'') [demo_asset] ''TOM'' DEFAULT_PORTFOLIO_DATA demo_asset ''t1'' 1 BUY MARKET 0 0
     = Inl InvalidQuantity
   \<and> trade_request (Some ''u'') [demo_asset] ''TOM'' DEFAULT_PORTFOLIO_DATA demo_asset ''t1'' 1 SELL LIMIT 5 0
     = Inl InvalidPrice
   \<and> commit DEFAULT_PORTFOLIO_DATA
       (trade_request (Some ''u'') [demo_asset] ''TOM'' DEFAULT_PORTFOLIO_DATA demo_asset ''t1'' 1 SELL LIMIT 5 0)
     = DEFAULT_PORTFOLIO_DATA"
  using invalid_requests_rejected[of 0 "Some ''u''" "[demo_asset]" "''TOM''" DEFAULT_PORTFOLIO_DATA
          demo_asset "''t1''" 1 BUY MARKET 0]
        invalid_requests_rejected[of 5 "Some ''u''" "[demo_asset]" "''TOM''" DEFAULT_PORTFOLIO_DATA
          demo_asset "''t1''" 1 SELL MARKET 0]
  by simp

section \<open>A scenario: buy, rest a limit order, fill it\<close>

lemma scenario_bought_eval:
  "cashBalance scenario_bought = 9000"
  "holding_or_default (holdings scenario_bought) ''TOM'' = \<lparr>quantity = 100, avgCost = Num 10\<rparr>"
  "openOrders scenario_bought = []"
  "map tx_summary (transactions scenario_bought) = [(BUY, ''TOM'', 100, 10, MARKET)]"
  by (simp_all add: scenario_bought_def handleTrade_def demo_asset_def Let_def
      DEFAULT_PORTFOLIO_DATA_def INITIAL_CASH_def json_copy_def json_holding_def
      holding_or_default_def tx_summary_def request_price_def)

lemma scenario_resting_eval:
  "cashBalance scenario_resting = 9000"
  "holding_or_default (holdings scenario_resting) ''TOM'' = \<lparr>quantity = 50, avgCost = Num 10\<rparr>"
  "openOrders scenario_resting = [\<lparr>lo_id = ''o1'', lo_assetId = ''TOM'', lo_type = SELL,
      lo_quantity = 50, lo_targetPrice = 12, lo_timestamp = 2\<rparr>]"
  "map tx_summary (transactions scenario_resting) = [(BUY, ''TOM'', 100, 10, MARKET)]"
  using scenario_bought_eval
  by (simp_all add: scenario_resting_def handleTrade_def demo_asset_def Let_def
      json_copy_fields hod_json_quantity hod_json_avgCost hod_upd request_price_def)

lemma scenario_filled_eval:
  "cashBalance scenario_filled = 9600"
  "openOrders scenario_filled = []"
  "map tx_summary (transactions scenario_filled)
     = [(BUY, ''TOM'', 100, 10, MARKET), (SELL, ''TOM'', 50, 12, LIMIT)]"
  "quantity (holding_or_default (holdings scenario_filled) ''TOM'') = 50"
  using scenario_resting_eval
  by (simp_all add: scenario_filled_def simulation_tick_def portfolio_after_def Let_def
      advance_def tick_asset_def demo_asset_up_def demo_asset_def newPrice_def volatility_def
      newHistoryPoint_def process_order_def settle_def json_copy_fields hod_json_quantity
      tx_summary_def)

text \<open>\<open>handleTrade\<close> itself checks neither the sign of the quantity nor that of the price: the panel's submit handler does. Called with a negative quantity it accepts a market SELL and takes cash.\<close>

lemma handleTrade_accepts_negative_quantity:
  "\<exists>np. handleTrade (Some ''u'') [demo_asset] ''TOM'' (DEFAULT_PORTFOLIO_DATA\<lparr>cashBalance := 0\<rparr>)
            ''t1'' 1 SELL (- 5) MARKET None = Inr np
       \<and> cashBalance np = - 50"
  by (simp add: handleTrade_def demo_asset_def Let_def DEFAULT_PORTFOLIO_DATA_def
      json_copy_def json_holding_def holding_or_default_def request_price_def)

section \<open>Double precision: the handlers and their rounding\<close>

lemma js_times_fp_id: "js_times_fp (\<lambda>x. x) a b = js_times a b"
  by (cases b) simp_all

lemma js_plus_fp_id: "js_plus_fp (\<lambda>x. x) a b = js_plus a b"
  by (cases a) simp_all

lemma js_divide_fp_id: "js_divide_fp (\<lambda>x. x) a b = js_divide a b"
  by (cases a) simp_all

lemmas js_fp_id = js_times_fp_id js_plus_fp_id js_divide_fp_id

text \<open>With no rounding the handlers are those over the reals.\<close>

lemma handleTrade_fp_id:
  "handleTrade_fp (\<lambda>x. x) user assets sel p newId now ty qty kind lp
     = handleTrade user assets sel p newId now ty qty kind lp"
  by (simp add: handleTrade_fp_def handleTrade_def js_fp_id Let_def
      split: option.splits Side.splits)

lemma handleCancelOrder_fp_id:
  "handleCancelOrder_fp (\<lambda>x. x) user p orderId = handleCancelOrder user p orderId"
  by (simp add: handleCancelOrder_fp_def handleCancelOrder_def Let_def split: option.splits)

lemma exponent_from_numeral:
  "exponent_from (numeral k) m e =
     (if m < 2 ^ 52 then (if e \<le> - 1074 then e else exponent_from (pred_numeral k) (m * 2) (e - 1))
      else if 2 ^ 53 \<le> m then exponent_from (pred_numeral k) (m / 2) (e + 1)
      else e)"
  by (simp add: numeral_eq_Suc)

lemmas binary64_eval = binary64_def exponent_from_numeral round_half_even_def Let_def power_int_minus

text \<open>Some values of the rounding: 0.1 is not representable, and 0.1 + 0.2 is 0.30000000000000004.\<close>

lemma binary64_examples:
  "binary64 0 = 0"
  "binary64 1 = 1"
  "binary64 10000 = 10000"
  "binary64 (1 / 10) = 3602879701896397 / 36028797018963968"
  "binary64 (binary64 (1 / 10) + binary64 (2 / 10)) = 1351079888211149 / 4503599627370496"
  "binary64 (452 / 10) = 3180667236830413 / 70368744177664"
  "binary64 (- (452 / 10)) = - (3180667236830413 / 70368744177664)"
  by (simp_all add: binary64_eval)

section \<open>Placing and cancelling a limit order in double precision\<close>

lemma handleTrade_fp_buy_rejected:
  assumes "user = Some uid" and "find (\<lambda>a. a_id a = sel) as = Some asset"
    and "cashBalance p < fl (qty * request_price asset kind lp)"
  shows "handleTrade_fp fl user as sel p newId now BUY qty kind lp = Inl InsufficientFunds"
  using assms
  by (simp add: handleTrade_fp_def Let_def json_copy_fields mult.commute)

lemma handleTrade_fp_buy_accepted:
  assumes "user = Some uid" and "find (\<lambda>a. a_id a = sel) as = Some asset"
    and "\<not> cashBalance p < fl (qty * request_price asset kind lp)"
  shows "\<exists>np. handleTrade_fp fl user as sel p newId now BUY qty kind lp = Inr np
            \<and> cashBalance np = fl (cashBalance p - fl (qty * request_price asset kind lp))"
  using assms
  by (cases kind)
     (simp_all add: handleTrade_fp_def Let_def json_copy_fields mult.commute)

lemma handleTrade_fp_market_buy:
  assumes "user = Some uid" and "find (\<lambda>a. a_id a = sel) as = Some asset"
    and "handleTrade_fp fl user as sel p newId now BUY qty MARKET lp = Inr np"
  shows "holding_or_default (holdings np) sel =
      \<lparr>quantity = fl (quantity (holding_or_default (holdings p) sel) + qty),
       avgCost = js_divide_fp fl
                   (js_plus_fp fl (js_times_fp fl (quantity (holding_or_default (holdings p) sel))
                                        (json_num (avgCost (holding_or_default (holdings p) sel))))
                                  (fl (qty * current_price asset)))
                   (fl (quantity (holding_or_default (holdings p) sel) + qty))\<rparr>"
  using assms
  by (auto simp: handleTrade_fp_def Let_def request_price_def hod_json_quantity hod_json_avgCost
      hod_upd mult.commute split: if_splits)

lemma handleTrade_fp_sell:
  assumes "user = Some uid" and "find (\<lambda>a. a_id a = sel) as = Some asset"
    and "handleTrade_fp fl user as sel p newId now SELL qty kind lp = Inr np"
  shows "quantity (holding_or_default (holdings np) sel)
           = fl (quantity (holding_or_default (holdings p) sel) - qty)"
    and "avgCost (holding_or_default (holdings np) sel)
           = json_num (avgCost (holding_or_default (holdings p) sel))"
  using assms
  by (cases kind; auto simp: handleTrade_fp_def Let_def hod_json_quantity hod_json_avgCost hod_upd
        split: if_splits)+

lemma handleTrade_fp_limit_placed:
  assumes "user = Some uid" and "find (\<lambda>a. a_id a = sel) as = Some asset"
    and "handleTrade_fp fl user as sel p newId now ty qty LIMIT (Some tp) = Inr p1"
  shows "openOrders p1 = openOrders p @
           [\<lparr>lo_id = newId, lo_assetId = sel, lo_type = ty, lo_quantity = qty,
             lo_targetPrice = tp, lo_timestamp = now\<rparr>]"
    and "transactions p1 = transactions p"
    and "ty = BUY \<Longrightarrow> cashBalance p1 = fl (cashBalance p - fl (qty * tp))"
    and "ty = BUY \<Longrightarrow> quantity (holding_or_default (holdings p1) sel)
                          = quantity (holding_or_default (holdings p) sel)"
    and "ty = SELL \<Longrightarrow> cashBalance p1 = cashBalance p"
    and "ty = SELL \<Longrightarrow> quantity (holding_or_default (holdings p1) sel)
                          = fl (quantity (holding_or_default (holdings p) sel) - qty)"
  using assms
  by (cases ty; auto simp: handleTrade_fp_def Let_def request_price_def json_copy_fields
        hod_json_quantity hod_upd mult.commute split: if_splits)+

lemma cancel_fp_last_order:
  assumes "user = Some uid"
    and "openOrders p1 = oo @ [ord]" and "\<forall>y \<in> set oo. lo_id y \<noteq> lo_id ord"
  shows "\<exists>p2. handleCancelOrder_fp fl user p1 (lo_id ord) = Inr p2
          \<and> openOrders p2 = oo \<and> transactions p2 = transactions p1
          \<and> (lo_type ord = BUY \<longrightarrow>
                cashBalance p2 = fl (cashBalance p1 + fl (lo_quantity ord * lo_targetPrice ord))
              \<and> quantity (holding_or_default (holdings p2) (lo_assetId ord))
                  = quantity (holding_or_default (holdings p1) (lo_assetId ord)))
          \<and> (lo_type ord = SELL \<longrightarrow>
                cashBalance p2 = cashBalance p1
              \<and> quantity (holding_or_default (holdings p2) (lo_assetId ord))
                  = fl (quantity (holding_or_default (holdings p1) (lo_assetId ord)) + lo_quantity ord))"
proof -
  have fi: "findIndex (\<lambda>x. lo_id x = lo_id ord) (openOrders (json_copy p1)) = Some (length oo)"
    using assms(2,3) by (simp add: json_copy_fields findIndex_fresh)
  have nth: "openOrders (json_copy p1) ! length oo = ord"
    using assms(2) by (simp add: json_copy_fields)
  show ?thesis
    using assms(1,2) fi nth
    by (cases "lo_type ord")
       (simp_all add: handleCancelOrder_fp_def Let_def json_copy_fields hod_json_quantity hod_upd)
qed

text \<open>Claim C4, amended. For an authenticated user and an existing selected asset: when placing a limit order under a fresh id is accepted, cancelling that id at once is accepted too and removes the order again, so that the open orders and the transactions are what they were before the placement. For a BUY the held quantity is untouched, the placement leaves the cash \<open>fl (cash - c)\<close> and the cancellation \<open>fl (fl (cash - c) + c)\<close>, with \<open>c = fl (qty * targetPrice)\<close> and \<open>fl\<close> the rounding of the arithmetic; this is the cash before the placement whenever that cash is a double and \<open>cash - c\<close> is computed exactly. For a SELL the cash is untouched, the placement leaves the held quantity \<open>fl (held - qty)\<close> and the cancellation \<open>fl (fl (held - qty) + qty)\<close>; this is the quantity held before whenever that quantity is a double and \<open>held - qty\<close> is computed exactly.\<close>

theorem place_then_cancel_round_trip:
  assumes "user = Some uid" and "find (\<lambda>a. a_id a = sel) as = Some asset"
    and "newId \<notin> lo_id ` set (openOrders p)"
    and "handleTrade_fp fl user as sel p newId now ty qty LIMIT (Some tp) = Inr p1"
  shows "\<exists>p2. handleCancelOrder_fp fl user p1 newId = Inr p2
          \<and> openOrders p2 = openOrders p
          \<and> newId \<notin> lo_id ` set (openOrders p2)
          \<and> transactions p2 = transactions p
          \<and> (ty = BUY \<longrightarrow>
                cashBalance p1 = fl (cashBalance p - fl (qty * tp))
              \<and> cashBalance p2 = fl (cashBalance p1 + fl (qty * tp))
              \<and> quantity (holding_or_default (holdings p2) sel)
                  = quantity (holding_or_default (holdings p) sel)
              \<and> (fl (cashBalance p) = cashBalance p
                   \<and> fl (cashBalance p - fl (qty * tp)) = cashBalance p - fl (qty * tp)
                  \<longrightarrow> cashBalance p2 = cashBalance p))
          \<and> (ty = SELL \<longrightarrow>
                cashBalance p2 = cashBalance p
              \<and> quantity (holding_or_default (holdings p1) sel)
                  = fl (quantity (holding_or_default (holdings p) sel) - qty)
              \<and> quantity (holding_or_default (holdings p2) sel)
                  = fl (quantity (holding_or_default (holdings p1) sel) + qty)
              \<and> (fl (quantity (holding_or_default (holdings p) sel))
                     = quantity (holding_or_default (holdings p) sel)
                   \<and> fl (quantity (holding_or_default (holdings p) sel) - qty)
                     = quantity (holding_or_default (holdings p) sel) - qty
                  \<longrightarrow> quantity (holding_or_default (holdings p2) sel)
                       = quantity (holding_or_default (holdings p) sel)))"
proof -
  let ?ord = "\<lparr>lo_id = newId, lo_assetId = sel, lo_type = ty, lo_quantity = qty,
             lo_targetPrice = tp, lo_timestamp = now\<rparr>"
  let ?hq = "quantity (holding_or_default (holdings p) sel)"
  note pl = handleTrade_fp_limit_placed[OF assms(1,2,4)]
  have fresh: "\<forall>y \<in> set (openOrders p). lo_id y \<noteq> lo_id ?ord"
    using assms(3) by auto
  obtain p2 where c: "handleCancelOrder_fp fl user p1 (lo_id ?ord) = Inr p2"
      "openOrders p2 = openOrders p" "transactions p2 = transactions p1"
      "lo_type ?ord = BUY \<longrightarrow>
                cashBalance p2 = fl (cashBalance p1 + fl (lo_quantity ?ord * lo_targetPrice ?ord))
              \<and> quantity (holding_or_default (holdings p2) (lo_assetId ?ord))
                  = quantity (holding_or_default (holdings p1) (lo_assetId ?ord))"
      "lo_type ?ord = SELL \<longrightarrow>
                cashBalance p2 = cashBalance p1
              \<and> quantity (holding_or_default (holdings p2) (lo_assetId ?ord))
                  = fl (quantity (holding_or_default (holdings p1) (lo_assetId ?ord)) + lo_quantity ?ord)"
    using cancel_fp_last_order[OF assms(1) pl(1) fresh, of fl] by blast
  have 1: "handleCancelOrder_fp fl user p1 newId = Inr p2" using c(1) by simp
  have 4: "newId \<notin> lo_id ` set (openOrders p2)" using c(2) assms(3) by simp
  have 5: "transactions p2 = transactions p" using c(3) pl(2) by simp
  have 6: "ty = BUY \<longrightarrow>
                cashBalance p1 = fl (cashBalance p - fl (qty * tp))
              \<and> cashBalance p2 = fl (cashBalance p1 + fl (qty * tp))
              \<and> quantity (holding_or_default (holdings p2) sel) = ?hq
              \<and> (fl (cashBalance p) = cashBalance p
                   \<and> fl (cashBalance p - fl (qty * tp)) = cashBalance p - fl (qty * tp)
                  \<longrightarrow> cashBalance p2 = cashBalance p)"
  proof
    assume b: "ty = BUY"
    have a: "cashBalance p1 = fl (cashBalance p - fl (qty * tp))" using pl(3)[OF b] .
    have r: "cashBalance p2 = fl (cashBalance p1 + fl (qty * tp))" using c(4) b by simp
    have q: "quantity (holding_or_default (holdings p2) sel) = ?hq" using c(4) pl(4)[OF b] b by simp
    have e: "fl (cashBalance p) = cashBalance p
                   \<and> fl (cashBalance p - fl (qty * tp)) = cashBalance p - fl (qty * tp)
                  \<longrightarrow> cashBalance p2 = cashBalance p"
      using a r by simp
    show "cashBalance p1 = fl (cashBalance p - fl (qty * tp))
              \<and> cashBalance p2 = fl (cashBalance p1 + fl (qty * tp))
              \<and> quantity (holding_or_default (holdings p2) sel) = ?hq
              \<and> (fl (cashBalance p) = cashBalance p
                   \<and> fl (cashBalance p - fl (qty * tp)) = cashBalance p - fl (qty * tp)
                  \<longrightarrow> cashBalance p2 = cashBalance p)"
      using a r q e by blast
  qed
  have 7: "ty = SELL \<longrightarrow>
                cashBalance p2 = cashBalance p
              \<and> quantity (holding_or_default (holdings p1) sel) = fl (?hq - qty)
              \<and> quantity (holding_or_default (holdings p2) sel)
                  = fl (quantity (holding_or_default (holdings p1) sel) + qty)
              \<and> (fl ?hq = ?hq \<and> fl (?hq - qty) = ?hq - qty
                  \<longrightarrow> quantity (holding_or_default (holdings p2) sel) = ?hq)"
  proof
    assume b: "ty = SELL"
    have a: "cashBalance p2 = cashBalance p" using c(5) pl(5)[OF b] b by simp
    have q1: "quantity (holding_or_default (holdings p1) sel) = fl (?hq - qty)" using pl(6)[OF b] .
    have q2: "quantity (holding_or_default (holdings p2) sel)
                  = fl (quantity (holding_or_default (holdings p1) sel) + qty)"
      using c(5) b by simp
    have e: "fl ?hq = ?hq \<and> fl (?hq - qty) = ?hq - qty
                  \<longrightarrow> quantity (holding_or_default (holdings p2) sel) = ?hq"
      using q1 q2 by simp
    show "cashBalance p2 = cashBalance p
              \<and> quantity (holding_or_default (holdings p1) sel) = fl (?hq - qty)
              \<and> quantity (holding_or_default (holdings p2) sel)
                  = fl (quantity (holding_or_default (holdings p1) sel) + qty)
              \<and> (fl ?hq = ?hq \<and> fl (?hq - qty) = ?hq - qty
                  \<longrightarrow> quantity (holding_or_default (holdings p2) sel) = ?hq)"
      using a q1 q2 e by blast
  qed
  show ?thesis using 1 c(2) 4 5 6 7 by blast
qed

lemma car_values:
  "binary64 (226 / 5) = 3180667236830413 / 70368744177664"
  "binary64 (9542001710491239 / 70368744177664) = 1192750213811405 / 8796093022208"
  "binary64 (86768180008268595 / 8796093022208) = 5423011250516787 / 549755813888"
  "binary64 (1192750213811405 / 26388279066624) = 6361334473660827 / 140737488355328"
  "binary64 (402 / 25) = 1131529406376837 / 70368744177664"
  "binary64 (14709882282898881 / 70368744177664) = 229841910670295 / 1099511627776"
  "binary64 (10616180590363279 / 1099511627776) = 663511286897705 / 68719476736"
  "binary64 (10846022501033575 / 1099511627776) = 1355752812629197 / 137438953472"
  by (simp_all add: binary64_eval)

section \<open>The round trip and the first buy, evaluated in double precision\<close>

lemma handleTrade_fp_market_orders:
  "handleTrade_fp fl user as sel p newId now ty qty MARKET lp = Inr np \<Longrightarrow>
   openOrders np = openOrders p"
  by (auto simp: handleTrade_fp_def Let_def json_copy_fields
      split: option.splits Side.splits if_splits)

lemma car_find: "find (\<lambda>a. a_id a = ''CAR'') [car_asset] = Some car_asset"
  by (simp add: car_asset_def)

lemma car_price: "current_price car_asset = 3180667236830413 / 70368744177664"
  by (simp add: car_asset_def car_values)

lemma default_car:
  "holding_or_default (holdings DEFAULT_PORTFOLIO_DATA) ''CAR'' = \<lparr>quantity = 0, avgCost = Num 0\<rparr>"
  by (simp add: DEFAULT_PORTFOLIO_DATA_def holding_or_default_def)

lemma fp_bought_eval:
  "handleTrade_fp binary64 (Some ''u'') [car_asset] ''CAR'' DEFAULT_PORTFOLIO_DATA ''t1'' 1
        BUY 3 MARKET None = Inr fp_bought"
  "cashBalance fp_bought = 5423011250516787 / 549755813888"
  "holding_or_default (holdings fp_bought) ''CAR''
     = \<lparr>quantity = 3, avgCost = Num (6361334473660827 / 140737488355328)\<rparr>"
  "openOrders fp_bought = []"
proof -
  have u: "Some ''u'' = Some ''u''" by simp
  have nr: "\<not> cashBalance DEFAULT_PORTFOLIO_DATA < binary64 (3 * request_price car_asset MARKET None)"
    by (simp add: request_price_def car_price car_values demo_default)
  obtain np where 1: "handleTrade_fp binary64 (Some ''u'') [car_asset] ''CAR'' DEFAULT_PORTFOLIO_DATA
        ''t1'' 1 BUY 3 MARKET None = Inr np"
    and c: "cashBalance np = binary64 (cashBalance DEFAULT_PORTFOLIO_DATA
                 - binary64 (3 * request_price car_asset MARKET None))"
    using handleTrade_fp_buy_accepted[where fl = binary64, OF u car_find nr, of "''t1''" 1] by blast
  have e: "fp_bought = np" unfolding fp_bought_def using 1 by simp
  show "handleTrade_fp binary64 (Some ''u'') [car_asset] ''CAR'' DEFAULT_PORTFOLIO_DATA ''t1'' 1
        BUY 3 MARKET None = Inr fp_bought" using 1 e by simp
  show "cashBalance fp_bought = 5423011250516787 / 549755813888"
    using c e by (simp add: request_price_def car_price car_values demo_default)
  show "holding_or_default (holdings fp_bought) ''CAR''
     = \<lparr>quantity = 3, avgCost = Num (6361334473660827 / 140737488355328)\<rparr>"
    using handleTrade_fp_market_buy[where fl = binary64, OF u car_find 1] e
    by (simp add: default_car car_price car_values binary64_eval)
  show "openOrders fp_bought = []"
    using handleTrade_fp_market_orders[OF 1] e by (simp add: demo_default)
qed

lemma fp_placed_eval:
  "handleTrade_fp binary64 (Some ''u'') [car_asset] ''CAR'' fp_bought ''o1'' 2
        BUY 13 LIMIT (Some (binary64 (1608 / 100))) = Inr fp_placed"
  "cashBalance fp_placed = 663511286897705 / 68719476736"
proof -
  have u: "Some ''u'' = Some ''u''" by simp
  have nr: "\<not> cashBalance fp_bought
       < binary64 (13 * request_price car_asset LIMIT (Some (binary64 (1608 / 100))))"
    by (simp add: request_price_def car_values fp_bought_eval)
  obtain np where 1: "handleTrade_fp binary64 (Some ''u'') [car_asset] ''CAR'' fp_bought ''o1'' 2
        BUY 13 LIMIT (Some (binary64 (1608 / 100))) = Inr np"
    and c: "cashBalance np = binary64 (cashBalance fp_bought
                 - binary64 (13 * request_price car_asset LIMIT (Some (binary64 (1608 / 100)))))"
    using handleTrade_fp_buy_accepted[where fl = binary64, OF u car_find nr, of "''o1''" 2] by blast
  have e: "fp_placed = np" unfolding fp_placed_def using 1 by simp
  show "handleTrade_fp binary64 (Some ''u'') [car_asset] ''CAR'' fp_bought ''o1'' 2
        BUY 13 LIMIT (Some (binary64 (1608 / 100))) = Inr fp_placed" using 1 e by simp
  show "cashBalance fp_placed = 663511286897705 / 68719476736"
    using c e by (simp add: request_price_def car_values fp_bought_eval)
qed

text \<open>Claim C4 as stated fails in the double arithmetic of the program. From the default portfolio, a market buy of 3 units at 45.2 leaves a cash balance of 9864.4; placing a limit BUY of 13 units at 16.08 then leaves 9655.36, and cancelling it at once returns 9864.400000000001.\<close>

theorem place_then_cancel_counterexample:
  "cashBalance fp_bought = 5423011250516787 / 549755813888
   \<and> cashBalance fp_placed = 663511286897705 / 68719476736
   \<and> handleCancelOrder_fp binary64 (Some ''u'') fp_placed ''o1'' = Inr fp_cancelled
   \<and> cashBalance fp_cancelled = 1355752812629197 / 137438953472
   \<and> cashBalance fp_cancelled \<noteq> cashBalance fp_bought"
proof -
  have u: "Some ''u'' = Some ''u''" by simp
  note pl = handleTrade_fp_limit_placed[where fl = binary64, OF u car_find fp_placed_eval(1)]
  have oo: "openOrders fp_placed = [] @
           [\<lparr>lo_id = ''o1'', lo_assetId = ''CAR'', lo_type = BUY, lo_quantity = 13,
             lo_targetPrice = binary64 (1608 / 100), lo_timestamp = 2\<rparr>]"
    using pl(1) by (simp add: fp_bought_eval)
  have fr: "\<forall>y \<in> set []. lo_id y \<noteq> lo_id
           \<lparr>lo_id = ''o1'', lo_assetId = ''CAR'', lo_type = BUY, lo_quantity = 13,
             lo_targetPrice = binary64 (1608 / 100), lo_timestamp = 2\<rparr>"
    by simp
  obtain p2 where c: "handleCancelOrder_fp binary64 (Some ''u'') fp_placed ''o1'' = Inr p2"
    and r: "cashBalance p2 = binary64 (cashBalance fp_placed
                 + binary64 (13 * binary64 (1608 / 100)))"
    using cancel_fp_last_order[where fl = binary64, OF u oo fr] by auto
  have e: "fp_cancelled = p2" unfolding fp_cancelled_def using c by simp
  have v: "cashBalance fp_cancelled = 1355752812629197 / 137438953472"
    using r e by (simp add: fp_placed_eval car_values)
  show ?thesis using c e v by (simp add: fp_bought_eval fp_placed_eval)
qed

text \<open>Claim C5 as stated fails in the double arithmetic of the program. From a holding of 0 units, a market buy of 3 units at 45.2 costs 135.60000000000002 and sets the average cost to 45.20000000000001, which is not the purchase price.\<close>

theorem first_buy_avg_cost_counterexample:
  "quantity (holding_or_default (holdings DEFAULT_PORTFOLIO_DATA) ''CAR'') = 0
   \<and> handleTrade_fp binary64 (Some ''u'') [car_asset] ''CAR'' DEFAULT_PORTFOLIO_DATA ''t1'' 1
        BUY 3 MARKET None = Inr fp_bought
   \<and> current_price car_asset = 3180667236830413 / 70368744177664
   \<and> avgCost (holding_or_default (holdings fp_bought) ''CAR'')
        = Num (6361334473660827 / 140737488355328)
   \<and> avgCost (holding_or_default (holdings fp_bought) ''CAR'') \<noteq> Num (current_price car_asset)"
  by (simp add: default_car fp_bought_eval car_price)

section \<open>Average cost in double precision\<close>

text \<open>Claim C5, amended. An accepted market BUY adds the quantity to the holding and sets its average cost to the weighted average as the program computes it, \<open>fl (fl (fl (oldQty * oldAvgCost) + fl (qty * price)) / fl (oldQty + qty))\<close>, with \<open>fl\<close> the rounding of the arithmetic (for a finite old average cost and a non-zero new quantity). When the held quantity was 0 and the quantity bought is a non-zero double, the new average cost is \<open>fl (fl (qty * price) / qty)\<close> whatever the old average cost was; it is the purchase price whenever \<open>qty * price\<close> is computed exactly. An accepted SELL (market or limit) subtracts the quantity and keeps the average cost (a non-finite one comes back as \<open>null\<close> from the JSON copy).\<close>

theorem avg_cost_weighted_average_rounded:
  assumes "user = Some uid" and "find (\<lambda>a. a_id a = sel) as = Some asset"
  shows "(handleTrade_fp fl user as sel p newId now BUY qty MARKET lp = Inr np \<longrightarrow>
            quantity (holding_or_default (holdings np) sel)
              = fl (quantity (holding_or_default (holdings p) sel) + qty)
          \<and> (\<forall>c. avgCost (holding_or_default (holdings p) sel) = Num c
                  \<and> fl (quantity (holding_or_default (holdings p) sel) + qty) \<noteq> 0 \<longrightarrow>
                avgCost (holding_or_default (holdings np) sel)
                  = Num (fl (fl (fl (quantity (holding_or_default (holdings p) sel) * c)
                                   + fl (qty * current_price asset))
                             / fl (quantity (holding_or_default (holdings p) sel) + qty))))
          \<and> (quantity (holding_or_default (holdings p) sel) = 0 \<and> qty \<noteq> 0
               \<and> fl 0 = 0 \<and> fl qty = qty
               \<and> fl (fl (qty * current_price asset)) = fl (qty * current_price asset) \<longrightarrow>
                avgCost (holding_or_default (holdings np) sel)
                  = Num (fl (fl (qty * current_price asset) / qty))
              \<and> (fl (qty * current_price asset) = qty * current_price asset
                   \<and> fl (current_price asset) = current_price asset \<longrightarrow>
                    avgCost (holding_or_default (holdings np) sel) = Num (current_price asset))))
     \<and> (handleTrade_fp fl user as sel p newId now SELL qty kind lp = Inr np \<longrightarrow>
            quantity (holding_or_default (holdings np) sel)
              = fl (quantity (holding_or_default (holdings p) sel) - qty)
          \<and> avgCost (holding_or_default (holdings np) sel)
              = json_num (avgCost (holding_or_default (holdings p) sel))
          \<and> (avgCost (holding_or_default (holdings p) sel) \<noteq> NonFinite \<longrightarrow>
                avgCost (holding_or_default (holdings np) sel)
                  = avgCost (holding_or_default (holdings p) sel)))"
proof -
  let ?h = "holding_or_default (holdings p) sel"
  let ?pr = "current_price asset"
  have buy: "handleTrade_fp fl user as sel p newId now BUY qty MARKET lp = Inr np \<longrightarrow>
            quantity (holding_or_default (holdings np) sel) = fl (quantity ?h + qty)
          \<and> (\<forall>c. avgCost ?h = Num c \<and> fl (quantity ?h + qty) \<noteq> 0 \<longrightarrow>
                avgCost (holding_or_default (holdings np) sel)
                  = Num (fl (fl (fl (quantity ?h * c) + fl (qty * ?pr)) / fl (quantity ?h + qty))))
          \<and> (quantity ?h = 0 \<and> qty \<noteq> 0 \<and> fl 0 = 0 \<and> fl qty = qty
               \<and> fl (fl (qty * ?pr)) = fl (qty * ?pr) \<longrightarrow>
                avgCost (holding_or_default (holdings np) sel) = Num (fl (fl (qty * ?pr) / qty))
              \<and> (fl (qty * ?pr) = qty * ?pr \<and> fl ?pr = ?pr \<longrightarrow>
                    avgCost (holding_or_default (holdings np) sel) = Num ?pr))"
  proof
    assume ok: "handleTrade_fp fl user as sel p newId now BUY qty MARKET lp = Inr np"
    note eq = handleTrade_fp_market_buy[OF assms ok]
    have a: "quantity (holding_or_default (holdings np) sel) = fl (quantity ?h + qty)"
      by (simp add: eq)
    have b: "\<forall>c. avgCost ?h = Num c \<and> fl (quantity ?h + qty) \<noteq> 0 \<longrightarrow>
                avgCost (holding_or_default (holdings np) sel)
                  = Num (fl (fl (fl (quantity ?h * c) + fl (qty * ?pr)) / fl (quantity ?h + qty)))"
      by (simp add: eq)
    have c: "quantity ?h = 0 \<and> qty \<noteq> 0 \<and> fl 0 = 0 \<and> fl qty = qty
               \<and> fl (fl (qty * ?pr)) = fl (qty * ?pr) \<longrightarrow>
                avgCost (holding_or_default (holdings np) sel) = Num (fl (fl (qty * ?pr) / qty))
              \<and> (fl (qty * ?pr) = qty * ?pr \<and> fl ?pr = ?pr \<longrightarrow>
                    avgCost (holding_or_default (holdings np) sel) = Num ?pr)"
      by (cases "avgCost ?h") (simp_all add: eq)
    show "quantity (holding_or_default (holdings np) sel) = fl (quantity ?h + qty)
          \<and> (\<forall>c. avgCost ?h = Num c \<and> fl (quantity ?h + qty) \<noteq> 0 \<longrightarrow>
                avgCost (holding_or_default (holdings np) sel)
                  = Num (fl (fl (fl (quantity ?h * c) + fl (qty * ?pr)) / fl (quantity ?h + qty))))
          \<and> (quantity ?h = 0 \<and> qty \<noteq> 0 \<and> fl 0 = 0 \<and> fl qty = qty
               \<and> fl (fl (qty * ?pr)) = fl (qty * ?pr) \<longrightarrow>
                avgCost (holding_or_default (holdings np) sel) = Num (fl (fl (qty * ?pr) / qty))
              \<and> (fl (qty * ?pr) = qty * ?pr \<and> fl ?pr = ?pr \<longrightarrow>
                    avgCost (holding_or_default (holdings np) sel) = Num ?pr))"
      using a b c by blast
  qed
  have sell: "handleTrade_fp fl user as sel p newId now SELL qty kind lp = Inr np \<longrightarrow>
            quantity (holding_or_default (holdings np) sel) = fl (quantity ?h - qty)
          \<and> avgCost (holding_or_default (holdings np) sel) = json_num (avgCost ?h)
          \<and> (avgCost ?h \<noteq> NonFinite \<longrightarrow> avgCost (holding_or_default (holdings np) sel) = avgCost ?h)"
  proof
    assume ok: "handleTrade_fp fl user as sel p newId now SELL qty kind lp = Inr np"
    note s = handleTrade_fp_sell[OF assms ok]
    have "avgCost ?h \<noteq> NonFinite \<longrightarrow> json_num (avgCost ?h) = avgCost ?h"
      by (cases "avgCost ?h") simp_all
    with s show "quantity (holding_or_default (holdings np) sel) = fl (quantity ?h - qty)
          \<and> avgCost (holding_or_default (holdings np) sel) = json_num (avgCost ?h)
          \<and> (avgCost ?h \<noteq> NonFinite \<longrightarrow> avgCost (holding_or_default (holdings np) sel) = avgCost ?h)"
      by simp
  qed
  show ?thesis using buy sell by blast
qed

lemma handleTrade_fp_sell_accepted:
  assumes "user = Some uid" and "find (\<lambda>a. a_id a = sel) as = Some asset"
    and "\<not> quantity (holding_or_default (holdings p) sel) < qty"
  shows "\<exists>np. handleTrade_fp fl user as sel p newId now SELL qty kind lp = Inr np"
  using assms by (simp add: handleTrade_fp_def Let_def hod_json_quantity)

lemma small_values:
  "binary64 0 = 0" "binary64 10 = 10" "binary64 20 = 20" "binary64 100 = 100"
  "binary64 200 = 200" "binary64 300 = 300" "binary64 15 = 15" "binary64 5 = 5"
  "binary64 9900 = 9900" "binary64 9700 = 9700" "binary64 10000 = 10000"
  "binary64 60 = 60" "binary64 9940 = 9940" "binary64 12 = 12"
  by (simp_all add: binary64_eval)

text \<open>C5 amended, in double precision: buying 10 units at 10 and then 10 units at 20 gives 20 units at an average cost of exactly 15, and selling 5 leaves 15 units at 15.\<close>

theorem avg_cost_weighted_average_rounded_witness:
  "quantity (holding_or_default (holdings fp_after_buy1) ''TOM'') = 10
   \<and> avgCost (holding_or_default (holdings fp_after_buy1) ''TOM'') = Num 10
   \<and> quantity (holding_or_default (holdings fp_after_buy2) ''TOM'') = 20
   \<and> avgCost (holding_or_default (holdings fp_after_buy2) ''TOM'') = Num 15
   \<and> quantity (holding_or_default (holdings fp_after_sell) ''TOM'') = 15
   \<and> avgCost (holding_or_default (holdings fp_after_sell) ''TOM'') = Num 15"
proof -
  have u: "Some ''u'' = Some ''u''" by simp
  have pr: "request_price demo_asset MARKET None = 10" "request_price demo_asset20 MARKET None = 20"
    by (simp_all add: request_price_def demo_prices)
  obtain np1 where 1: "handleTrade_fp binary64 (Some ''u'') [demo_asset] ''TOM''
       DEFAULT_PORTFOLIO_DATA ''t1'' 1 BUY 10 MARKET None = Inr np1" and c1: "cashBalance np1 = 9900"
    using handleTrade_fp_buy_accepted[where fl = binary64, OF u demo_find(1),
        of DEFAULT_PORTFOLIO_DATA 10 MARKET None "''t1''" 1]
    by (auto simp: pr demo_default small_values)
  have p1: "fp_after_buy1 = np1" unfolding fp_after_buy1_def using 1 by simp
  from avg_cost_weighted_average_rounded[where fl = binary64, OF u demo_find(1),
      of DEFAULT_PORTFOLIO_DATA "''t1''" 1 10 None np1] 1
  have h1: "quantity (holding_or_default (holdings np1) ''TOM'') = 10"
       "avgCost (holding_or_default (holdings np1) ''TOM'') = Num 10"
    by (simp_all add: demo_default demo_prices small_values)
  obtain np2 where 2: "handleTrade_fp binary64 (Some ''u'') [demo_asset20] ''TOM'' np1 ''t2'' 2
       BUY 10 MARKET None = Inr np2" and c2: "cashBalance np2 = 9700"
    using handleTrade_fp_buy_accepted[where fl = binary64, OF u demo_find(2),
        of np1 10 MARKET None "''t2''" 2]
    by (auto simp: pr c1 small_values)
  have p2: "fp_after_buy2 = np2" unfolding fp_after_buy2_def p1 using 2 by simp
  from avg_cost_weighted_average_rounded[where fl = binary64, OF u demo_find(2),
      of np1 "''t2''" 2 10 None np2] 2
  have h2: "quantity (holding_or_default (holdings np2) ''TOM'') = 20"
       "avgCost (holding_or_default (holdings np2) ''TOM'') = Num 15"
    by (simp_all add: h1 demo_prices small_values)
  have nr: "\<not> quantity (holding_or_default (holdings np2) ''TOM'') < 5" by (simp add: h2)
  obtain np3 where 3: "handleTrade_fp binary64 (Some ''u'') [demo_asset20] ''TOM'' np2 ''t3'' 3
       SELL 5 MARKET None = Inr np3"
    using handleTrade_fp_sell_accepted[where fl = binary64, OF u demo_find(2) nr] by blast
  have p3: "fp_after_sell = np3" unfolding fp_after_sell_def p2 using 3 by simp
  from avg_cost_weighted_average_rounded[where fl = binary64 and p = np2 and newId = "''t3''"
      and now = 3 and qty = 5 and kind = MARKET and lp = None and np = np3, OF u demo_find(2)] 3
  have h3: "quantity (holding_or_default (holdings np3) ''TOM'') = 15"
       "avgCost (holding_or_default (holdings np3) ''TOM'') = Num 15"
    by (simp_all add: h2 small_values)
  show ?thesis using h1 h2 h3 by (simp add: p1 p2 p3)
qed

text \<open>C4 amended, in double precision, on a limit BUY of 5 at 12 from the default portfolio: 9940 after placing, 10000 after cancelling.\<close>

theorem place_then_cancel_round_trip_witness:
  "\<exists>p2. handleCancelOrder_fp binary64 (Some ''u'') fp_demo_placed ''o1'' = Inr p2
      \<and> cashBalance fp_demo_placed = 9940
      \<and> cashBalance p2 = 10000
      \<and> openOrders p2 = []"
proof -
  have u: "Some ''u'' = Some ''u''" by simp
  have pr: "request_price demo_asset LIMIT (Some 12) = 12"
    by (simp add: request_price_def)
  obtain np1 where 1: "handleTrade_fp binary64 (Some ''u'') [demo_asset] ''TOM''
       DEFAULT_PORTFOLIO_DATA ''o1'' 1 BUY 5 LIMIT (Some 12) = Inr np1"
    using handleTrade_fp_buy_accepted[where fl = binary64, OF u demo_find(1),
        of DEFAULT_PORTFOLIO_DATA 5 LIMIT "Some 12" "''o1''" 1]
    by (auto simp: pr demo_default small_values)
  have p1: "fp_demo_placed = np1" unfolding fp_demo_placed_def using 1 by simp
  have fresh: "''o1'' \<notin> lo_id ` set (openOrders DEFAULT_PORTFOLIO_DATA)"
    by (simp add: demo_default)
  from place_then_cancel_round_trip[where fl = binary64, OF u demo_find(1) fresh 1]
  show ?thesis by (auto simp: p1 demo_default small_values)
qed

section \<open>The ledger a tick commits\<close>

lemma spec_apply_fill_frame:
  "transactions (spec_apply_fill L order) = transactions L"
  "openOrders (spec_apply_fill L order) = openOrders L"
  by (cases "lo_type order"; simp add: spec_apply_fill_def Let_def)+



lemma foldl_spec_apply_fill_frame:
  "transactions (foldl spec_apply_fill L orders) = transactions L"
  "openOrders (foldl spec_apply_fill L orders) = openOrders L"
  by (induction orders arbitrary: L) (simp_all add: spec_apply_fill_frame)









section \<open>The funds check and the holdings check\<close>



end
